theory Spec2Isabelle
  imports Main "HOL-Library.Word"
begin

section \<open>JavaScript strings and values\<close>

text \<open>
  A JavaScript string is a sequence of UTF-16 code units; \<open>length\<close>, \<open>substring\<close> and
  \<open>trim\<close> count and cut code units. String literals of the source are ASCII and are
  written \<open>js ''...''\<close>.
\<close>

type_synonym jschar = "16 word"
type_synonym jsstring = "jschar list"

definition js :: "string \<Rightarrow> jsstring" where
  "js s = map of_char s"

text \<open>
  \<open>is_ws\<close> is the character class \<open>\s\<close> of a JavaScript regular expression, which is also
  the set \<open>String.prototype.trim\<close> strips (WhiteSpace and LineTerminator of ECMAScript).
\<close>

definition is_ws :: "jschar \<Rightarrow> bool" where
  "is_ws c \<longleftrightarrow>
     c = 0x09 \<or> c = 0x0A \<or> c = 0x0B \<or> c = 0x0C \<or> c = 0x0D \<or> c = 0x20 \<or> c = 0xA0 \<or>
     c = 0x1680 \<or> (0x2000 \<le> c \<and> c \<le> 0x200A) \<or> c = 0x2028 \<or> c = 0x2029 \<or>
     c = 0x202F \<or> c = 0x205F \<or> c = 0x3000 \<or> c = 0xFEFF"

text \<open>\<open>s.replace(/\s+/g, ' ')\<close>: every maximal run of whitespace becomes one space.\<close>

function collapse_ws :: "jsstring \<Rightarrow> jsstring" where
  "collapse_ws [] = []"
| "collapse_ws (c # cs) =
     (if is_ws c then 0x20 # collapse_ws (dropWhile is_ws cs) else c # collapse_ws cs)"
  by pat_completeness auto
termination
  by (relation "measure length") (auto simp: le_imp_less_Suc length_dropWhile_le)

text \<open>\<open>s.trim()\<close>.\<close>

definition trim :: "jsstring \<Rightarrow> jsstring" where
  "trim s = rev (dropWhile is_ws (rev (dropWhile is_ws s)))"

text \<open>Line 70 of the worker: \<open>bodyText.replace(/\s+/g, ' ').trim()\<close>.\<close>

definition clean :: "jsstring \<Rightarrow> jsstring" where
  "clean s = trim (collapse_ws s)"

text \<open>
  What collapsing leaves: every whitespace code unit is a space and no whitespace
  follows it.
\<close>

fun single_spaced :: "jsstring \<Rightarrow> bool" where
  "single_spaced [] = True"
| "single_spaced [c] = (is_ws c \<longrightarrow> c = 0x20)"
| "single_spaced (c # d # cs) = ((is_ws c \<longrightarrow> c = 0x20 \<and> \<not> is_ws d) \<and> single_spaced (d # cs))"


text \<open>\<open>s.startsWith(p)\<close>.\<close>

definition startsWith :: "jsstring \<Rightarrow> jsstring \<Rightarrow> bool" where
  "startsWith s p \<longleftrightarrow> take (length p) s = p"

text \<open>\<open>String.fromCharCode.apply(null, bytes)\<close>: one code unit per byte.\<close>

definition fromCharCode :: "8 word list \<Rightarrow> jsstring" where
  "fromCharCode bs = map ucast bs"

text \<open>
  \<open>s.toLowerCase()\<close> on ASCII letters. The worker applies it to the tag names of the
  elements \<open>h1\<close> to \<open>h6\<close> only; the Unicode case mapping of other code units is not needed.
\<close>

definition toLowerCase :: "jsstring \<Rightarrow> jsstring" where
  "toLowerCase s = map (\<lambda>c. if 0x41 \<le> c \<and> c \<le> 0x5A then c + 0x20 else c) s"

text \<open>The decimal rendering of a non-negative integer in a template literal.\<close>

function dec :: "nat \<Rightarrow> jsstring" where
  "dec n = (if n < 10 then [0x30 + of_nat n] else dec (n div 10) @ [0x30 + of_nat (n mod 10)])"
  by pat_completeness auto
termination
  by (relation "measure id") auto

declare dec.simps [simp del]

text \<open>
  A \<open>File\<close> object: its descriptor and the outcome of \<open>file.arrayBuffer()\<close>, which is the
  byte content or a rejection with a message.
\<close>

record jsfile =
  file_name :: jsstring
  file_size :: nat
  file_type :: jsstring
  file_lastModified :: int
  file_bytes :: "jsstring + 8 word list"

text \<open>
  The values that cross the message boundary (structured clone carries no functions).
  Numbers are the integers the program uses: sizes, lengths and time values.
\<close>

datatype jsval =
    JUndefined
  | JNull
  | JBool bool
  | JNum int
  | JStr jsstring
  | JBuffer "8 word list"
  | JFile jsfile
  | JArr "jsval list"
  | JObj "(string \<times> jsval) list"

text \<open>Property read \<open>v.k\<close> (and destructuring \<open>const { k } = v\<close>) on a value other than
  \<open>null\<close> and \<open>undefined\<close>: a missing property reads as \<open>undefined\<close>.\<close>

fun get_prop :: "jsval \<Rightarrow> string \<Rightarrow> jsval" where
  "get_prop (JObj kvs) k = (case map_of kvs k of Some v \<Rightarrow> v | None \<Rightarrow> JUndefined)"
| "get_prop (JFile f) k =
     (if k = ''name'' then JStr (file_name f)
      else if k = ''size'' then JNum (int (file_size f))
      else if k = ''type'' then JStr (file_type f)
      else if k = ''lastModified'' then JNum (file_lastModified f)
      else JUndefined)"
| "get_prop _ k = JUndefined"

fun truthy :: "jsval \<Rightarrow> bool" where
  "truthy JUndefined = False"
| "truthy JNull = False"
| "truthy (JBool b) = b"
| "truthy (JNum n) = (n \<noteq> 0)"
| "truthy (JStr s) = (s \<noteq> [])"
| "truthy _ = True"

text \<open>\<open>a || b\<close> on values and on strings.\<close>

definition js_or :: "jsval \<Rightarrow> jsval \<Rightarrow> jsval" where
  "js_or a b = (if truthy a then a else b)"

definition str_or :: "jsstring \<Rightarrow> jsstring \<Rightarrow> jsstring" where
  "str_or a b = (if a \<noteq> [] then a else b)"

text \<open>\<open>new Date(t).toISOString()\<close> raises a RangeError outside the range of time values.\<close>

definition valid_time :: "int \<Rightarrow> bool" where
  "valid_time t \<longleftrightarrow> - 8640000000000000 \<le> t \<and> t \<le> 8640000000000000"

section \<open>The platform of the worker\<close>

text \<open>
  What the worker calls and does not define: the network, the HTML parser, the selector
  engine and the DOM accessors, the clock, and the text of errors the engine raises.
  They are parameters of the model. \<open>fetch\<close> rejects with a message or resolves to a
  response; \<open>querySelectorAll\<close> lists the matching elements in document order.
  \<open>domParser\<close> is the \<open>parseFromString\<close> of a \<open>DOMParser\<close> for \<open>text/html\<close>, or \<open>None\<close> in a scope
  where \<open>DOMParser\<close> is not defined (the worker scopes of browsers do not define it), so
  that \<open>new DOMParser()\<close> raises a ReferenceError with the message \<open>reference_message\<close>.
\<close>

record response =
  status :: nat
  statusText :: jsstring
  text_body :: "jsstring + jsstring"

text \<open>\<open>response.ok\<close> is defined by the Fetch standard as a status from 200 to 299.\<close>

definition ok :: "response \<Rightarrow> bool" where
  "ok r \<longleftrightarrow> 200 \<le> status r \<and> status r \<le> 299"

record ('d, 'e) platform =
  fetch :: "jsval \<Rightarrow> jsstring + response"
  domParser :: "(jsstring \<Rightarrow> 'd) option"
  querySelectorAll :: "'d \<Rightarrow> jsstring \<Rightarrow> 'e list"
  textContent :: "'e \<Rightarrow> jsstring"
  innerText :: "'e \<Rightarrow> jsstring"
  getAttribute :: "'e \<Rightarrow> jsstring \<Rightarrow> jsstring option"
  href :: "'e \<Rightarrow> jsstring"
  tagName :: "'e \<Rightarrow> jsstring"
  clock :: int
  toISOString :: "int \<Rightarrow> jsstring"
  engine_message :: "jsval \<Rightarrow> jsstring"
  reference_message :: jsstring

text \<open>\<open>document.querySelector(sel)\<close>: the first match in document order, or \<open>null\<close>.\<close>

definition querySelector :: "('d, 'e) platform \<Rightarrow> 'd \<Rightarrow> jsstring \<Rightarrow> 'e option" where
  "querySelector env d sel = (case querySelectorAll env d sel of [] \<Rightarrow> None | e # _ \<Rightarrow> Some e)"

section \<open>The worker (ingestWorker.js)\<close>

subsection \<open>handleHtmlFetch\<close>

definition contentSelectors :: "jsstring list" where
  "contentSelectors =
     [js ''main'', js ''article'', js ''.content'', js ''#content'', js ''.post-content'',
      js ''.entry-content'', js ''body'']"

text \<open>The loop of lines 61 to 67: the first selector with a match decides, then \<open>break\<close>.\<close>

fun probe :: "('d, 'e) platform \<Rightarrow> 'd \<Rightarrow> jsstring list \<Rightarrow> jsstring" where
  "probe env d [] = []"
| "probe env d (selector # rest) =
     (case querySelector env d selector of
        Some element \<Rightarrow> str_or (textContent env element) (str_or (innerText env element) [])
      | None \<Rightarrow> probe env d rest)"

text \<open>Lines 49 to 70: the value of \<open>bodyText\<close> after the clean-up.\<close>

definition extract_bodyText :: "('d, 'e) platform \<Rightarrow> 'd \<Rightarrow> jsstring" where
  "extract_bodyText env d = clean (probe env d contentSelectors)"

text \<open>Lines 73 to 78: the link records, as pairs of text and target, after the filter.\<close>

definition extract_links :: "('d, 'e) platform \<Rightarrow> 'd \<Rightarrow> (jsstring \<times> jsstring) list" where
  "extract_links env d =
     filter (\<lambda>(text, target). text \<noteq> [] \<and> target \<noteq> [])
       (map (\<lambda>link. (trim (textContent env link), href env link))
          (querySelectorAll env d (js ''a[href]'')))"

text \<open>Lines 81 to 86: the heading records, as pairs of level and text, after the filter.\<close>

definition extract_headings :: "('d, 'e) platform \<Rightarrow> 'd \<Rightarrow> (jsstring \<times> jsstring) list" where
  "extract_headings env d =
     filter (\<lambda>(level, text). text \<noteq> [])
       (map (\<lambda>heading. (toLowerCase (tagName env heading), trim (textContent env heading)))
          (querySelectorAll env d (js ''h1, h2, h3, h4, h5, h6'')))"

definition link_record :: "jsstring \<times> jsstring \<Rightarrow> jsval" where
  "link_record l = JObj [(''text'', JStr (fst l)), (''href'', JStr (snd l))]"

definition heading_record :: "jsstring \<times> jsstring \<Rightarrow> jsval" where
  "heading_record h = JObj [(''level'', JStr (fst h)), (''text'', JStr (snd h))]"

definition extract_title :: "('d, 'e) platform \<Rightarrow> 'd \<Rightarrow> jsstring" where
  "extract_title env d =
     (case querySelector env d (js ''title'') of
        None \<Rightarrow> js ''No title found''
      | Some e \<Rightarrow> str_or (textContent env e) (js ''No title found''))"

definition extract_metaDescription :: "('d, 'e) platform \<Rightarrow> 'd \<Rightarrow> jsstring" where
  \<open>extract_metaDescription env d =
     (case querySelector env d (js ''meta[name="description"]'') of
        None \<Rightarrow> []
      | Some e \<Rightarrow> (case getAttribute env e (js ''content'') of None \<Rightarrow> [] | Some c \<Rightarrow> c))\<close>

text \<open>The message of the \<open>catch\<close> block of handleHtmlFetch.\<close>

definition html_failure :: "jsval \<Rightarrow> jsstring \<Rightarrow> jsval" where
  "html_failure url message =
     JObj [(''operation'', JStr (js ''html'')),
           (''success'', JBool False),
           (''error'', JStr (js ''Failed to fetch/parse HTML: '' @ message)),
           (''url'', url)]"

definition html_success :: "('d, 'e) platform \<Rightarrow> jsval \<Rightarrow> 'd \<Rightarrow> jsval" where
  "html_success env url d =
     (let bodyText = extract_bodyText env d;
          links = map link_record (extract_links env d);
          headings = map heading_record (extract_headings env d)
      in JObj [(''operation'', JStr (js ''html'')),
               (''success'', JBool True),
               (''data'', JObj
                  [(''url'', url),
                   (''title'', JStr (extract_title env d)),
                   (''metaDescription'', JStr (extract_metaDescription env d)),
                   (''bodyText'', JStr (take 10000 bodyText)),
                   (''links'', JArr (take 50 links)),
                   (''headings'', JArr (take 20 headings)),
                   (''contentLength'', JNum (int (length bodyText))),
                   (''fetchedAt'', JStr (toISOString env (clock env)))])])"

text \<open>
  handleHtmlFetch returns the list of messages it posts. Every exception of its \<open>try\<close>
  block (a rejected fetch, a status that is not ok, a rejected body read, no parser) ends in the
  \<open>catch\<close> block, so the function itself never throws.
\<close>

definition handleHtmlFetch :: "('d, 'e) platform \<Rightarrow> jsval \<Rightarrow> jsval list" where
  "handleHtmlFetch env url =
     (case fetch env url of
        Inl message \<Rightarrow> [html_failure url message]
      | Inr response \<Rightarrow>
          if \<not> ok response then
            [html_failure url
               (js ''HTTP '' @ dec (status response) @ js '': '' @ statusText response)]
          else
            (case text_body response of
               Inl message \<Rightarrow> [html_failure url message]
             | Inr htmlContent \<Rightarrow>
                 (case domParser env of
                    None \<Rightarrow> [html_failure url (reference_message env)]
                  | Some parseFromString \<Rightarrow>
                      [html_success env url (parseFromString htmlContent)])))"

subsection \<open>handlePdfParse\<close>

definition pdf_failure :: "jsval \<Rightarrow> jsstring \<Rightarrow> jsval" where
  "pdf_failure file message =
     JObj [(''operation'', JStr (js ''pdf'')),
           (''success'', JBool False),
           (''error'', JStr (js ''Failed to parse PDF: '' @ message)),
           (''filename'', js_or (get_prop file ''name'') (JStr (js ''unknown'')))]"

definition pdf_success :: "('d, 'e) platform \<Rightarrow> jsfile \<Rightarrow> jsval" where
  "pdf_success env f =
     JObj [(''operation'', JStr (js ''pdf'')),
           (''success'', JBool True),
           (''data'', JObj
              [(''metadata'', JObj
                  [(''name'', JStr (file_name f)),
                   (''size'', JNum (int (file_size f))),
                   (''type'', JStr (file_type f)),
                   (''lastModified'', JStr (toISOString env (file_lastModified f)))]),
               (''content'', JObj
                  [(''text'', JStr (js
                      ''PDF content extraction would be implemented here using PDF.js library'')),
                   (''pages'', JStr (js ''Unknown'')),
                   (''author'', JStr (js ''Unknown'')),
                   (''subject'', JStr (js ''Unknown'')),
                   (''creator'', JStr (js ''Unknown''))]),
               (''extractedAt'', JStr (toISOString env (clock env))),
               (''note'', JStr (js
                  ''PDF parsing requires PDF.js library integration for full functionality''))])]"

text \<open>
  handlePdfParse, in the order of the source: the declared type (line 118), the metadata
  with the date of \<open>lastModified\<close> (line 130), the read of the bytes (line 134), the
  signature (line 141). A value that is not a \<open>File\<close> and passes the type check has no
  \<open>arrayBuffer\<close> method, so line 130 or line 134 raises an error of the engine; reading
  \<open>type\<close> from \<open>null\<close> or \<open>undefined\<close> raises one as well.
\<close>

definition handlePdfParse :: "('d, 'e) platform \<Rightarrow> jsval \<Rightarrow> jsval list" where
  "handlePdfParse env file =
     (if file = JUndefined \<or> file = JNull then [pdf_failure file (engine_message env file)]
      else if get_prop file ''type'' \<noteq> JStr (js ''application/pdf'') then
        [pdf_failure file (js ''File is not a PDF document'')]
      else
        (case file of
           JFile f \<Rightarrow>
             if \<not> valid_time (file_lastModified f) then
               [pdf_failure file (engine_message env file)]
             else
               (case file_bytes f of
                  Inl message \<Rightarrow> [pdf_failure file message]
                | Inr arrayBuffer \<Rightarrow>
                    if \<not> startsWith (fromCharCode (take 4 arrayBuffer)) (js ''%PDF'') then
                      [pdf_failure file (js ''Invalid PDF file format'')]
                    else [pdf_success env f])
         | _ \<Rightarrow> [pdf_failure file (engine_message env file)]))"

subsection \<open>The listeners\<close>

text \<open>The \<open>error\<close> and \<open>unhandledrejection\<close> listeners of lines 178 to 194.\<close>

definition worker_error_message :: "jsstring \<Rightarrow> jsval" where
  "worker_error_message message =
     JObj [(''success'', JBool False),
           (''error'', JStr (js ''Worker error: '' @ message)),
           (''operation'', JStr (js ''error''))]"

definition unhandled_rejection_message :: "jsstring \<Rightarrow> jsval" where
  "unhandled_rejection_message reason =
     JObj [(''success'', JBool False),
           (''error'', JStr (js ''Unhandled promise rejection: '' @ reason)),
           (''operation'', JStr (js ''error''))]"

definition invalid_operation :: "jsval \<Rightarrow> jsval" where
  "invalid_operation operation =
     JObj [(''success'', JBool False),
           (''error'', JStr (js ''Invalid operation or missing data'')),
           (''operation'', js_or operation (JStr (js ''unknown'')))]"

text \<open>
  The \<open>message\<close> listener of lines 5 to 27, as the list of messages posted for
  \<open>event.data\<close>. Destructuring \<open>null\<close> or \<open>undefined\<close> throws before the \<open>try\<close>; the rejected
  promise of the listener reaches the \<open>unhandledrejection\<close> listener. The \<open>catch\<close> of
  line 20 is never entered, because neither handler throws.
\<close>

definition on_message :: "('d, 'e) platform \<Rightarrow> jsval \<Rightarrow> jsval list" where
  "on_message env data =
     (if data = JUndefined \<or> data = JNull then
        [unhandled_rejection_message (engine_message env data)]
      else
        (let operation = get_prop data ''operation'';
             url = get_prop data ''url'';
             file = get_prop data ''file''
         in if operation = JStr (js ''html'') \<and> truthy url then handleHtmlFetch env url
            else if operation = JStr (js ''pdf'') \<and> truthy file then handlePdfParse env file
            else [invalid_operation operation]))"

section \<open>The dispatcher (class Ingest)\<close>

text \<open>
  What the host page supplies: the clock, the URL parser behind \<open>new URL(url)\<close> (true
  when the constructor returns, false when it throws), whether \<open>new Worker(...)\<close>
  succeeds, and the text of the errors the engine raises.
\<close>

record host =
  now :: int
  new_URL :: "jsstring \<Rightarrow> bool"
  new_Worker :: bool
  host_message :: jsstring

datatype channel = OnProgress | OnComplete | OnError

text \<open>A JavaScript \<open>Error\<close> with its message: what an \<open>async\<close> method rejects with.\<close>

datatype error = Error jsstring

text \<open>
  The instance: \<open>worker\<close> is false for \<open>null\<close>; a callback slot holds \<open>null\<close> or a function
  of the host, named by a number. The effects are recorded in the state: \<open>outbox\<close> is
  what was passed to \<open>this.worker.postMessage\<close>, \<open>invoked\<close> the callback calls with their
  argument, \<open>warnings\<close> the arguments of \<open>console.warn\<close>, \<open>reads\<close> the number of calls
  of \<open>file.arrayBuffer()\<close>, each oldest first.
\<close>

record ingest =
  worker :: bool
  isWorkerReady :: bool
  callbacks :: "channel \<Rightarrow> nat option"
  outbox :: "jsval list"
  invoked :: "(channel \<times> nat \<times> jsval) list"
  warnings :: "jsval list"
  reads :: nat

definition triggerCallback :: "channel \<Rightarrow> jsval \<Rightarrow> ingest \<Rightarrow> ingest" where
  "triggerCallback callbackName data s =
     (case callbacks s callbackName of
        None \<Rightarrow> s
      | Some f \<Rightarrow> s\<lparr>invoked := invoked s @ [(callbackName, f, data)]\<rparr>)"

definition initializeWorker :: "host \<Rightarrow> ingest \<Rightarrow> ingest" where
  "initializeWorker h s =
     (if new_Worker h then
        s\<lparr>worker := True, outbox := outbox s @ [JObj [(''type'', JStr (js ''init''))]]\<rparr>
      else
        triggerCallback OnError
          (JObj [(''type'', JStr (js ''worker_init_error'')),
                 (''message'', JStr (js ''Could not load web worker'')),
                 (''error'', JObj [(''message'', JStr (host_message h))])]) s)"

definition constructor :: "host \<Rightarrow> ingest" where
  "constructor h =
     initializeWorker h
       \<lparr>worker = False, isWorkerReady = False, callbacks = (\<lambda>_. None), outbox = [],
        invoked = [], warnings = [], reads = 0\<rparr>"

text \<open>
  handleWorkerMessage: the \<open>switch\<close> compares \<open>type\<close> with \<open>===\<close>. Destructuring \<open>null\<close> or
  \<open>undefined\<close> throws out of the \<open>onmessage\<close> handler and changes nothing.
\<close>

definition handleWorkerMessage :: "ingest \<Rightarrow> jsval \<Rightarrow> ingest" where
  "handleWorkerMessage s data =
     (if data = JUndefined \<or> data = JNull then s
      else
        (let type = get_prop data ''type''; payload = get_prop data ''payload''
         in if type = JStr (js ''worker_ready'') then s\<lparr>isWorkerReady := True\<rparr>
            else if type = JStr (js ''progress'') then triggerCallback OnProgress payload s
            else if type = JStr (js ''ingest_complete'') then triggerCallback OnComplete payload s
            else if type = JStr (js ''error'') then triggerCallback OnError payload s
            else s\<lparr>warnings := warnings s @ [type]\<rparr>))"

text \<open>The \<open>worker.onerror\<close> handler of lines 32 to 39.\<close>

definition worker_onerror :: "ingest \<Rightarrow> jsval \<Rightarrow> ingest" where
  "worker_onerror s err =
     triggerCallback OnError
       (JObj [(''type'', JStr (js ''worker_error'')),
              (''message'', JStr (js ''Web worker initialization failed'')),
              (''error'', err)]) s"

text \<open>setCallbacks: a slot is replaced only by a callback that is provided.\<close>

definition setCallbacks :: "ingest \<Rightarrow> nat option \<Rightarrow> nat option \<Rightarrow> nat option \<Rightarrow> ingest" where
  "setCallbacks s onProgress onComplete onError =
     s\<lparr>callbacks := (\<lambda>c.
          case (case c of OnProgress \<Rightarrow> onProgress | OnComplete \<Rightarrow> onComplete
                | OnError \<Rightarrow> onError) of
            Some f \<Rightarrow> Some f
          | None \<Rightarrow> callbacks s c)\<rparr>"

definition not_ready :: error where
  "not_ready = Error (js ''Worker not ready. Please wait for initialization.'')"

text \<open>
  ingestURL returns the outcome of its promise (\<open>Inl\<close> the error it rejects with) and
  the instance. With \<open>this.worker\<close> null, \<open>this.worker.postMessage\<close> raises a TypeError of
  the engine.
\<close>

definition ingest_url_message :: "host \<Rightarrow> jsstring \<Rightarrow> jsval" where
  "ingest_url_message h url =
     JObj [(''type'', JStr (js ''ingest_url'')),
           (''payload'', JObj [(''url'', JStr url), (''timestamp'', JNum (now h))])]"

definition ingestURL :: "host \<Rightarrow> ingest \<Rightarrow> jsval \<Rightarrow> (error + jsval) \<times> ingest" where
  "ingestURL h s url =
     (if \<not> isWorkerReady s then (Inl not_ready, s)
      else
        (case url of
           JStr u \<Rightarrow>
             if u = [] then (Inl (Error (js ''Invalid URL provided'')), s)
             else if \<not> new_URL h u then (Inl (Error (js ''Invalid URL format'')), s)
             else if \<not> worker s then (Inl (Error (host_message h)), s)
             else
               (Inr (JObj [(''status'', JStr (js ''processing'')), (''url'', JStr u)]),
                s\<lparr>outbox := outbox s @ [ingest_url_message h u]\<rparr>)
         | _ \<Rightarrow> (Inl (Error (js ''Invalid URL provided'')), s)))"

text \<open>
  ingestPDF. \<open>file instanceof File\<close> holds of the \<open>File\<close> values only. The read of the
  bytes and the post are inside the \<open>try\<close>, whose \<open>catch\<close> rethrows with a prefix.
\<close>

definition ingest_pdf_message :: "host \<Rightarrow> jsfile \<Rightarrow> 8 word list \<Rightarrow> jsval" where
  "ingest_pdf_message h f arrayBuffer =
     JObj [(''type'', JStr (js ''ingest_pdf'')),
           (''payload'', JObj [(''fileName'', JStr (file_name f)),
                               (''fileSize'', JNum (int (file_size f))),
                               (''fileData'', JBuffer arrayBuffer),
                               (''timestamp'', JNum (now h))])]"

definition ingestPDF :: "host \<Rightarrow> ingest \<Rightarrow> jsval \<Rightarrow> (error + jsval) \<times> ingest" where
  "ingestPDF h s file =
     (if \<not> isWorkerReady s then (Inl not_ready, s)
      else
        (case file of
           JFile f \<Rightarrow>
             if file_type f \<noteq> js ''application/pdf'' then
               (Inl (Error (js ''File must be a PDF'')), s)
             else
               (let s' = s\<lparr>reads := reads s + 1\<rparr>
                in case file_bytes f of
                     Inl message \<Rightarrow>
                       (Inl (Error (js ''Failed to read PDF file: '' @ message)), s')
                   | Inr arrayBuffer \<Rightarrow>
                       if \<not> worker s then
                         (Inl (Error (js ''Failed to read PDF file: '' @ host_message h)), s')
                       else
                         (Inr (JObj [(''status'', JStr (js ''processing'')),
                                     (''fileName'', JStr (file_name f)),
                                     (''fileSize'', JNum (int (file_size f)))]),
                          s'\<lparr>outbox := outbox s' @ [ingest_pdf_message h f arrayBuffer]\<rparr>))
         | _ \<Rightarrow> (Inl (Error (js ''Invalid file provided'')), s)))"

definition getStatus :: "ingest \<Rightarrow> jsval" where
  "getStatus s =
     JObj [(''workerReady'', JBool (isWorkerReady s)),
           (''hasCallbacks'', JObj
              [(''onProgress'', JBool (callbacks s OnProgress \<noteq> None)),
               (''onComplete'', JBool (callbacks s OnComplete \<noteq> None)),
               (''onError'', JBool (callbacks s OnError \<noteq> None))])]"

definition destroy :: "ingest \<Rightarrow> ingest" where
  "destroy s = s\<lparr>worker := False, isWorkerReady := False, callbacks := (\<lambda>_. None)\<rparr>"

text \<open>The error classes of the specification, which the source tells apart by message.\<close>

definition invalid_input :: "error \<Rightarrow> bool" where
  "invalid_input e \<longleftrightarrow>
     e = Error (js ''Invalid URL provided'') \<or> e = Error (js ''Invalid URL format'') \<or>
     e = Error (js ''Invalid file provided'') \<or> e = Error (js ''File must be a PDF'')"

section \<open>The dispatcher and the worker together\<close>

text \<open>
  The two sides and the two message queues between them. An action is one turn of the
  host page, of the dispatcher or of the worker, with the environment of that turn. The
  host page calls the methods of the instance that are meant for it, and may call
  initializeWorker again. A call of ingestPDF is taken as one turn. Messages still queued when \<open>destroy\<close>
  terminates the worker stay deliverable here, which only adds behaviours.
\<close>

record system =
  disp :: ingest
  to_worker :: "jsval list"
  to_host :: "jsval list"

datatype ('d, 'e) action =
    CallInitializeWorker host
  | CallSetCallbacks "nat option" "nat option" "nat option"
  | CallIngestURL host jsval
  | CallIngestPDF host jsval
  | CallGetStatus
  | CallDestroy
  | WorkerHandles "('d, 'e) platform"
  | WorkerError jsstring
  | WorkerRejection jsstring
  | HostHandles
  | HostWorkerError jsval

text \<open>A turn of the dispatcher: what it posted in the turn joins the worker's queue.\<close>

definition host_turn :: "system \<Rightarrow> ingest \<Rightarrow> system" where
  "host_turn sys s' =
     sys\<lparr>disp := s',
         to_worker := to_worker sys @ drop (length (outbox (disp sys))) (outbox s')\<rparr>"

definition boot :: "host \<Rightarrow> system" where
  "boot h = \<lparr>disp = constructor h, to_worker = outbox (constructor h), to_host = []\<rparr>"

fun step :: "system \<Rightarrow> ('d, 'e) action \<Rightarrow> system" where
  "step sys (CallInitializeWorker h) = host_turn sys (initializeWorker h (disp sys))"
| "step sys (CallSetCallbacks p c e) = host_turn sys (setCallbacks (disp sys) p c e)"
| "step sys (CallIngestURL h url) = host_turn sys (snd (ingestURL h (disp sys) url))"
| "step sys (CallIngestPDF h file) = host_turn sys (snd (ingestPDF h (disp sys) file))"
| "step sys CallGetStatus = sys"
| "step sys CallDestroy = host_turn sys (destroy (disp sys))"
| "step sys (WorkerHandles env) =
     (case to_worker sys of
        [] \<Rightarrow> sys
      | data # rest \<Rightarrow> sys\<lparr>to_worker := rest, to_host := to_host sys @ on_message env data\<rparr>)"
| "step sys (WorkerError message) =
     sys\<lparr>to_host := to_host sys @ [worker_error_message message]\<rparr>"
| "step sys (WorkerRejection reason) =
     sys\<lparr>to_host := to_host sys @ [unhandled_rejection_message reason]\<rparr>"
| "step sys HostHandles =
     (case to_host sys of
        [] \<Rightarrow> sys
      | data # rest \<Rightarrow> host_turn (sys\<lparr>to_host := rest\<rparr>) (handleWorkerMessage (disp sys) data))"
| "step sys (HostWorkerError err) = host_turn sys (worker_onerror (disp sys) err)"

definition run :: "host \<Rightarrow> ('d, 'e) action list \<Rightarrow> system" where
  "run h acts = foldl step (boot h) acts"

section \<open>A document tree for concrete runs\<close>

text \<open>
  One platform to run the worker on: documents are forests of element and text nodes,
  and the selector engine knows the selectors the worker passes. An element matches a
  class selector when the class is one of the tokens of its \<open>class\<close> attribute.
\<close>

datatype node = TextNode jsstring | Element jsstring "(jsstring \<times> jsstring) list" "node list"

fun elements :: "node \<Rightarrow> node list" where
  "elements (TextNode t) = []"
| "elements (Element tag attrs children) =
     Element tag attrs children # concat (map elements children)"

fun node_text :: "node \<Rightarrow> jsstring" where
  "node_text (TextNode t) = t"
| "node_text (Element tag attrs children) = concat (map node_text children)"

fun attribute :: "node \<Rightarrow> jsstring \<Rightarrow> jsstring option" where
  "attribute (TextNode t) a = None"
| "attribute (Element tag attrs children) a = map_of attrs a"

fun tag_of :: "node \<Rightarrow> jsstring" where
  "tag_of (TextNode t) = []"
| "tag_of (Element tag attrs children) = tag"

fun split_ws :: "jsstring \<Rightarrow> jsstring \<Rightarrow> jsstring list" where
  "split_ws [] cur = (if cur = [] then [] else [cur])"
| "split_ws (c # cs) cur =
     (if c = 0x09 \<or> c = 0x0A \<or> c = 0x0C \<or> c = 0x0D \<or> c = 0x20
      then (if cur = [] then split_ws cs [] else cur # split_ws cs [])
      else split_ws cs (cur @ [c]))"

definition has_class :: "jsstring \<Rightarrow> node \<Rightarrow> bool" where
  "has_class c n =
     (case attribute n (js ''class'') of None \<Rightarrow> False | Some v \<Rightarrow> c \<in> set (split_ws v []))"

definition matches :: "jsstring \<Rightarrow> node \<Rightarrow> bool" where
  \<open>matches sel n =
     (if sel \<in> set (map js [''title'', ''main'', ''article'', ''body'']) then tag_of n = sel
      else if sel = js ''.content'' then has_class (js ''content'') n
      else if sel = js ''#content'' then attribute n (js ''id'') = Some (js ''content'')
      else if sel = js ''.post-content'' then has_class (js ''post-content'') n
      else if sel = js ''.entry-content'' then has_class (js ''entry-content'') n
      else if sel = js ''a[href]'' then
        tag_of n = js ''a'' \<and> attribute n (js ''href'') \<noteq> None
      else if sel = js ''meta[name="description"]'' then
        tag_of n = js ''meta'' \<and> attribute n (js ''name'') = Some (js ''description'')
      else if sel = js ''h1, h2, h3, h4, h5, h6'' then
        tag_of n \<in> set (map js [''h1'', ''h2'', ''h3'', ''h4'', ''h5'', ''h6''])
      else False)\<close>

definition toUpperCase :: "jsstring \<Rightarrow> jsstring" where
  "toUpperCase s = map (\<lambda>c. if 0x61 \<le> c \<and> c \<le> 0x7A then c - 0x20 else c) s"

text \<open>
  The network and the parser stay parameters. Targets are taken as resolved already;
  the clock reads 0, the only time value this platform renders.
\<close>

definition tree_platform ::
  "(jsval \<Rightarrow> jsstring + response) \<Rightarrow> (jsstring \<Rightarrow> node list) \<Rightarrow> (node list, node) platform" where
  "tree_platform net parser =
     \<lparr>fetch = net,
      domParser = Some parser,
      querySelectorAll = (\<lambda>d sel. filter (matches sel) (concat (map elements d))),
      textContent = node_text,
      innerText = node_text,
      getAttribute = attribute,
      href = (\<lambda>e. case attribute e (js ''href'') of None \<Rightarrow> [] | Some target \<Rightarrow> target),
      tagName = (\<lambda>e. toUpperCase (tag_of e)),
      clock = 0,
      toISOString = (\<lambda>t. js ''1970-01-01T00:00:00.000Z''),
      engine_message = (\<lambda>v. js ''TypeError''),
      reference_message = js ''DOMParser is not defined''\<rparr>"

text \<open>A response with status 200 whose body parses to the given document.\<close>

definition serving :: "node list \<Rightarrow> (node list, node) platform" where
  "serving d =
     tree_platform
       (\<lambda>url. Inr \<lparr>status = 200, statusText = js ''OK'', text_body = Inr []\<rparr>) (\<lambda>html. d)"

text \<open>A response with the given status and reason phrase.\<close>

definition answering :: "nat \<Rightarrow> jsstring \<Rightarrow> (node list, node) platform" where
  "answering code phrase =
     tree_platform
       (\<lambda>url. Inr \<lparr>status = code, statusText = phrase, text_body = Inr []\<rparr>) (\<lambda>html. [])"

text \<open>
  A host page at time 0 whose worker loads. Its URL parser is a stand-in that accepts
  the strings with a host after \<open>https://\<close>; it is used at \<open>https://example.org/\<close> and at
  strings every URL parser rejects.
\<close>

definition browser :: host where
  "browser =
     \<lparr>now = 0, new_URL = (\<lambda>u. take 8 u = js ''https://'' \<and> 8 < length u),
      new_Worker = True, host_message = js ''TypeError''\<rparr>"

text \<open>The same page once a readiness acknowledgment has been handled.\<close>

definition ready_dispatcher :: ingest where
  "ready_dispatcher = (constructor browser)\<lparr>isWorkerReady := True\<rparr>"

text \<open>Two files with the same four bytes \<open>abcd\<close>, declared as plain text and as PDF.\<close>

definition notes_txt :: jsfile where
  "notes_txt =
     \<lparr>file_name = js ''notes.txt'', file_size = 4, file_type = js ''text/plain'',
      file_lastModified = 0, file_bytes = Inr [0x61, 0x62, 0x63, 0x64]\<rparr>"

definition pdf_named_txt :: jsfile where
  "pdf_named_txt =
     \<lparr>file_name = js ''notes.pdf'', file_size = 4, file_type = js ''application/pdf'',
      file_lastModified = 0, file_bytes = Inr [0x61, 0x62, 0x63, 0x64]\<rparr>"

text \<open>
  Three documents: one whose article holds 10001 letters between whitespace; one with an
  anchor of blank text, 60 anchors with text and target, a heading without text and 25
  headings with text; one with a \<open>content\<close> container before an article.
\<close>

definition long_text :: jsstring where
  "long_text = [0x20, 0x0A] @ replicate 10001 0x61 @ [0x09, 0x20]"

definition long_page :: "node list" where
  "long_page =
     [Element (js ''html'') []
        [Element (js ''body'') [] [Element (js ''article'') [] [TextNode long_text]]]]"

definition anchor :: node where
  "anchor = Element (js ''a'') [(js ''href'', js ''https://example.org/x'')] [TextNode (js '' link '')]"

definition blank_anchor :: node where
  "blank_anchor = Element (js ''a'') [(js ''href'', js ''https://example.org/y'')] [TextNode (js ''  '')]"

definition heading :: node where
  "heading = Element (js ''h2'') [] [TextNode (js ''Section'')]"

definition blank_heading :: node where
  "blank_heading = Element (js ''h3'') [] []"

definition link_page :: "node list" where
  "link_page =
     [Element (js ''html'') []
        [Element (js ''body'') []
           (blank_anchor # replicate 60 anchor @ blank_heading # replicate 25 heading)]]"

definition small_page :: "node list" where
  "small_page =
     [Element (js ''html'') []
        [Element (js ''body'') []
           [Element (js ''div'') [(js ''class'', js ''box content'')] [TextNode (js ''skipped'')],
            Element (js ''article'') [] [TextNode (js ''  Hello'' @ [0x0A, 0x09] @ js ''world '')]]]]"

section \<open>The specification's reading of the text operations\<close>

text \<open>
  The clean-up, as the specification has it, leaves the words of the text joined by
  single spaces: a word is a maximal run of code units that are not whitespace.
  \<open>rtrim\<close> strips whitespace at the end only.
\<close>

function spec_words :: "jsstring \<Rightarrow> jsstring list" where
  "spec_words s =
     (case dropWhile is_ws s of
        [] \<Rightarrow> []
      | c # cs \<Rightarrow>
          (c # takeWhile (\<lambda>x. \<not> is_ws x) cs) # spec_words (dropWhile (\<lambda>x. \<not> is_ws x) cs))"
  by pat_completeness auto
termination
proof (relation "measure length")
  show "wf (measure length)"
    by simp
next
  fix s :: jsstring and c cs
  assume "dropWhile is_ws s = c # cs"
  then have "length (c # cs) \<le> length s"
    by (metis length_dropWhile_le)
  moreover have "length (dropWhile (\<lambda>x. \<not> is_ws x) cs) \<le> length cs"
    by (rule length_dropWhile_le)
  ultimately show "(dropWhile (\<lambda>x. \<not> is_ws x) cs, s) \<in> measure length"
    by simp
qed

declare spec_words.simps [simp del]

fun spec_join :: "jsstring list \<Rightarrow> jsstring" where
  "spec_join [] = []"
| "spec_join [w] = w"
| "spec_join (w # v # ws) = w @ 0x20 # spec_join (v # ws)"

definition rtrim :: "jsstring \<Rightarrow> jsstring" where
  "rtrim t = rev (dropWhile is_ws (rev t))"

text \<open>The number a string of decimal digits stands for.\<close>

definition spec_value :: "jsstring \<Rightarrow> nat" where
  "spec_value s = foldl (\<lambda>a c. 10 * a + (unat c - 48)) 0 s"

section \<open>The invariant of the composed system\<close>

text \<open>
  The dispatcher is not ready, no message on its way to the dispatcher has a \<open>type\<close>
  field, and the only callback invoked so far is \<open>onError\<close>.
\<close>

definition quiet :: "system \<Rightarrow> bool" where
  "quiet sys \<longleftrightarrow>
     \<not> isWorkerReady (disp sys) \<and>
     (\<forall>m \<in> set (to_host sys). get_prop m ''type'' = JUndefined) \<and>
     (\<forall>i \<in> set (invoked (disp sys)). fst i = OnError)"

section \<open>No message of the worker has a type field\<close>

lemma html_failure_no_type: "get_prop (html_failure url m) ''type'' = JUndefined"
  by (simp add: html_failure_def)

lemma html_success_no_type: "get_prop (html_success env url d) ''type'' = JUndefined"
  by (simp add: html_success_def Let_def)

lemma pdf_failure_no_type: "get_prop (pdf_failure file m) ''type'' = JUndefined"
  by (simp add: pdf_failure_def)

lemma pdf_success_no_type: "get_prop (pdf_success env f) ''type'' = JUndefined"
  by (simp add: pdf_success_def)

lemma invalid_operation_no_type: "get_prop (invalid_operation v) ''type'' = JUndefined"
  by (simp add: invalid_operation_def)

lemma listener_messages_no_type:
  "get_prop (worker_error_message m) ''type'' = JUndefined"
  "get_prop (unhandled_rejection_message m) ''type'' = JUndefined"
  by (simp_all add: worker_error_message_def unhandled_rejection_message_def)

lemma handleHtmlFetch_no_type:
  "m \<in> set (handleHtmlFetch env url) \<Longrightarrow> get_prop m ''type'' = JUndefined"
  by (auto simp: handleHtmlFetch_def html_failure_no_type html_success_no_type
      split: sum.splits if_splits option.splits)

lemma handlePdfParse_no_type:
  "m \<in> set (handlePdfParse env file) \<Longrightarrow> get_prop m ''type'' = JUndefined"
  by (auto simp: handlePdfParse_def pdf_failure_no_type pdf_success_no_type
      split: sum.splits if_splits jsval.splits)

lemma on_message_no_type:
  "m \<in> set (on_message env data) \<Longrightarrow> get_prop m ''type'' = JUndefined"
  by (auto simp: on_message_def Let_def listener_messages_no_type invalid_operation_no_type
      dest: handleHtmlFetch_no_type handlePdfParse_no_type split: if_splits)

lemma handleWorkerMessage_no_type:
  "get_prop data ''type'' = JUndefined \<Longrightarrow>
   handleWorkerMessage s data = (if data = JUndefined \<or> data = JNull then s else s\<lparr>warnings := warnings s @ [JUndefined]\<rparr>)"
  by (simp add: handleWorkerMessage_def Let_def)

lemma triggerCallback_fields:
  "isWorkerReady (triggerCallback c v s) = isWorkerReady s"
  "outbox (triggerCallback c v s) = outbox s"
  "set (invoked (triggerCallback c v s)) \<subseteq> insert (c, the (callbacks s c), v) (set (invoked s))"
  by (auto simp: triggerCallback_def split: option.splits)

section \<open>Every run keeps the invariant\<close>

lemma quiet_boot: "quiet (boot h)"
  by (simp add: quiet_def boot_def constructor_def initializeWorker_def triggerCallback_def)

lemma quiet_step: "quiet sys \<Longrightarrow> quiet (step sys a)"
proof (cases a)
  case (WorkerHandles env)
  assume q: "quiet sys"
  show ?thesis
    using q unfolding WorkerHandles
    by (auto simp: quiet_def dest: on_message_no_type split: list.splits)
next
  case HostHandles
  assume q: "quiet sys"
  show ?thesis
    using q unfolding HostHandles
    by (auto simp: quiet_def host_turn_def handleWorkerMessage_no_type split: list.splits)
qed (auto simp: quiet_def host_turn_def initializeWorker_def setCallbacks_def ingestURL_def
      ingestPDF_def destroy_def listener_messages_no_type worker_onerror_def triggerCallback_def
      Let_def split: option.splits)

lemma quiet_foldl: "quiet s \<Longrightarrow> quiet (foldl step s acts)"
  by (induction acts arbitrary: s) (simp_all add: quiet_step)

lemma quiet_run: "quiet (run h acts)"
  by (simp add: run_def quiet_boot quiet_foldl)

section \<open>Submission before readiness\<close>

text \<open>
  C4: a submission made while the readiness flag is false, by ingestURL or by ingestPDF
  and whatever the argument, rejects with the not-ready error and leaves the instance
  as it was: nothing is posted to the worker, no byte is read, and the caller is told.
\<close>

theorem not_ready_rejects:
  assumes "\<not> isWorkerReady s"
  shows "ingestURL h s url = (Inl not_ready, s) \<and> ingestPDF h s file = (Inl not_ready, s) \<and>
         not_ready = Error (js ''Worker not ready. Please wait for initialization.'')"
  using assms by (simp add: ingestURL_def ingestPDF_def not_ready_def)

theorem not_ready_rejects_witness:
  "\<not> isWorkerReady (constructor browser) \<and>
   ingestURL browser (constructor browser) (JStr (js ''https://example.org/''))
     = (Inl not_ready, constructor browser) \<and>
   ingestPDF browser (constructor browser) (JBuffer [0x25, 0x50, 0x44, 0x46])
     = (Inl not_ready, constructor browser)"
  using not_ready_rejects [of "constructor browser" browser "JStr (js ''https://example.org/'')"
      "JBuffer [0x25, 0x50, 0x44, 0x46]"]
  by (simp add: constructor_def initializeWorker_def browser_def)

section \<open>The two message formats\<close>

lemma forwarded_shape:
  assumes "res = ingestURL h s arg \<or> res = ingestPDF h s arg"
      and "m \<in> set (drop (length (outbox s)) (outbox (snd res)))"
  shows "(\<exists>u. m = ingest_url_message h u) \<or> (\<exists>f b. m = ingest_pdf_message h f b)"
  using assms
  by (auto simp: ingestURL_def ingestPDF_def Let_def split: if_splits jsval.splits sum.splits)
    blast+

text \<open>
  C1: every message a call of ingestURL or ingestPDF posts has the type \<open>ingest_url\<close> or
  \<open>ingest_pdf\<close> and its data under \<open>payload\<close>, so the worker, which reads \<open>operation\<close>,
  \<open>url\<close> and \<open>file\<close> at the top level, reads three times \<open>undefined\<close>, takes its last branch
  and posts the invalid-operation failure, a message without a \<open>type\<close> field. The
  dispatcher handles that reply in the default branch of its switch: it warns and
  invokes no callback. In every run of the two together \<open>onComplete\<close> is never invoked.
\<close>

theorem forwarded_task_is_refused:
  assumes "res = ingestURL h s arg \<or> res = ingestPDF h s arg"
      and "m \<in> set (drop (length (outbox s)) (outbox (snd res)))"
  shows "(get_prop m ''type'' = JStr (js ''ingest_url'') \<or>
          get_prop m ''type'' = JStr (js ''ingest_pdf'')) \<and>
         get_prop m ''payload'' \<noteq> JUndefined \<and>
         get_prop m ''operation'' = JUndefined \<and>
         get_prop m ''url'' = JUndefined \<and>
         get_prop m ''file'' = JUndefined \<and>
         on_message env m = [invalid_operation JUndefined] \<and>
         get_prop (invalid_operation JUndefined) ''success'' = JBool False \<and>
         get_prop (invalid_operation JUndefined) ''type'' = JUndefined \<and>
         handleWorkerMessage t (invalid_operation JUndefined)
           = t\<lparr>warnings := warnings t @ [JUndefined]\<rparr> \<and>
         invoked (handleWorkerMessage t (invalid_operation JUndefined)) = invoked t \<and>
         OnComplete \<notin> fst ` set (invoked (disp (run h0 acts)))"
proof -
  have reply: "handleWorkerMessage t (invalid_operation JUndefined)
      = t\<lparr>warnings := warnings t @ [JUndefined]\<rparr>"
    by (simp add: handleWorkerMessage_no_type invalid_operation_no_type)
       (simp add: invalid_operation_def)
  have sys: "OnComplete \<notin> fst ` set (invoked (disp (run h0 acts)))"
    using quiet_run [of h0 acts] by (auto simp: quiet_def)
  from forwarded_shape [OF assms]
  have "(get_prop m ''type'' = JStr (js ''ingest_url'') \<or>
          get_prop m ''type'' = JStr (js ''ingest_pdf'')) \<and>
         get_prop m ''payload'' \<noteq> JUndefined \<and>
         get_prop m ''operation'' = JUndefined \<and>
         get_prop m ''url'' = JUndefined \<and>
         get_prop m ''file'' = JUndefined \<and>
         on_message env m = [invalid_operation JUndefined]"
    by (auto simp: ingest_url_message_def ingest_pdf_message_def on_message_def)
  with reply sys show ?thesis
    by (simp add: invalid_operation_no_type) (simp add: invalid_operation_def)
qed

theorem forwarded_task_is_refused_witness:
  "ingest_url_message browser (js ''https://example.org/'')
     \<in> set (drop (length (outbox ready_dispatcher))
         (outbox (snd (ingestURL browser ready_dispatcher (JStr (js ''https://example.org/'')))))) \<and>
   on_message (serving []) (ingest_url_message browser (js ''https://example.org/''))
     = [JObj [(''success'', JBool False),
              (''error'', JStr (js ''Invalid operation or missing data'')),
              (''operation'', JStr (js ''unknown''))]] \<and>
   invoked (handleWorkerMessage ready_dispatcher (invalid_operation JUndefined)) = []"
  using forwarded_task_is_refused [of
      "ingestURL browser ready_dispatcher (JStr (js ''https://example.org/''))"
      browser ready_dispatcher "JStr (js ''https://example.org/'')"
      "ingest_url_message browser (js ''https://example.org/'')"
      "serving []" ready_dispatcher browser "[] :: (node list, node) action list"]
  by (simp add: ready_dispatcher_def constructor_def initializeWorker_def browser_def
      ingestURL_def invalid_operation_def js_or_def js_def)

section \<open>Readiness\<close>

text \<open>
  C2: no message the worker posts, from its message listener or from its two error
  listeners, has the type \<open>worker_ready\<close>; handleWorkerMessage sets the readiness flag
  exactly on such a message and no other method sets it; so after every run of the
  dispatcher and the worker together the flag is false, and ingestURL and ingestPDF
  reject with the not-ready error whatever their argument.
\<close>

theorem worker_never_ready:
  "(\<forall>m \<in> set (on_message env data). get_prop m ''type'' \<noteq> JStr (js ''worker_ready'')) \<and>
   get_prop (worker_error_message e) ''type'' \<noteq> JStr (js ''worker_ready'') \<and>
   get_prop (unhandled_rejection_message e) ''type'' \<noteq> JStr (js ''worker_ready'') \<and>
   (isWorkerReady (handleWorkerMessage s data') \<longleftrightarrow>
      isWorkerReady s \<or> get_prop data' ''type'' = JStr (js ''worker_ready'')) \<and>
   \<not> isWorkerReady (constructor h) \<and>
   isWorkerReady (initializeWorker h s) = isWorkerReady s \<and>
   isWorkerReady (setCallbacks s p c r) = isWorkerReady s \<and>
   isWorkerReady (snd (ingestURL h s v)) = isWorkerReady s \<and>
   isWorkerReady (snd (ingestPDF h s v)) = isWorkerReady s \<and>
   isWorkerReady (worker_onerror s v) = isWorkerReady s \<and>
   \<not> isWorkerReady (destroy s) \<and>
   \<not> isWorkerReady (disp (run h acts)) \<and>
   ingestURL h' (disp (run h acts)) url = (Inl not_ready, disp (run h acts)) \<and>
   ingestPDF h' (disp (run h acts)) file = (Inl not_ready, disp (run h acts))"
proof -
  have a: "\<forall>m \<in> set (on_message env data). get_prop m ''type'' \<noteq> JStr (js ''worker_ready'')"
    by (auto dest: on_message_no_type)
  have b: "\<not> isWorkerReady (disp (run h acts))"
    using quiet_run [of h acts] by (simp add: quiet_def)
  have c: "isWorkerReady (handleWorkerMessage s data') \<longleftrightarrow>
      isWorkerReady s \<or> get_prop data' ''type'' = JStr (js ''worker_ready'')"
    by (cases data') (auto simp: handleWorkerMessage_def Let_def triggerCallback_fields)
  have d: "isWorkerReady (snd (ingestURL h s v)) = isWorkerReady s"
      "isWorkerReady (snd (ingestPDF h s v)) = isWorkerReady s"
    by (auto simp: ingestURL_def ingestPDF_def Let_def split: jsval.splits sum.splits)
  show ?thesis
    using a b c d
    by (simp add: listener_messages_no_type ingestURL_def ingestPDF_def constructor_def
        initializeWorker_def triggerCallback_fields setCallbacks_def worker_onerror_def
        destroy_def)
qed


theorem worker_never_ready_witness:
  "on_message (serving []) (JObj [(''type'', JStr (js ''init''))])
     = [invalid_operation JUndefined] \<and>
   get_prop (invalid_operation JUndefined) ''type'' \<noteq> JStr (js ''worker_ready'') \<and>
   to_host (run browser [WorkerHandles (serving [])]) = [invalid_operation JUndefined] \<and>
   \<not> isWorkerReady (disp (run browser [WorkerHandles (serving []), HostHandles])) \<and>
   warnings (disp (run browser [WorkerHandles (serving []), HostHandles])) = [JUndefined] \<and>
   fst (ingestURL browser (disp (run browser [WorkerHandles (serving []), HostHandles]))
          (JStr (js ''https://example.org/''))) = Inl not_ready"
  using worker_never_ready [where env = "serving []"
      and data = "JObj [(''type'', JStr (js ''init''))]" and h = browser
      and acts = "[WorkerHandles (serving []), HostHandles]" and h' = browser
      and url = "JStr (js ''https://example.org/'')"]
  by (simp add: on_message_def run_def boot_def constructor_def initializeWorker_def
      browser_def host_turn_def handleWorkerMessage_def invalid_operation_def js_or_def)

section \<open>Validation in the dispatcher\<close>

text \<open>
  C5: on a dispatcher that is ready and has its worker, ingestURL accepts every string
  the URL parser accepts, posting the task message and resolving with the processing
  acknowledgment; for every argument that is not a string, and for every string the
  URL parser rejects, it rejects with an invalid-input error and leaves the instance
  as it was, so nothing is posted. The URL parser is the platform's; that it rejects
  the empty string is what is assumed of it.
\<close>

theorem ingestURL_validates:
  assumes "isWorkerReady s" and "worker s" and "\<not> new_URL h []"
  shows "(new_URL h u \<longrightarrow>
            ingestURL h s (JStr u)
              = (Inr (JObj [(''status'', JStr (js ''processing'')), (''url'', JStr u)]),
                 s\<lparr>outbox := outbox s @ [ingest_url_message h u]\<rparr>)) \<and>
         ((\<forall>w. arg \<noteq> JStr w) \<or> (\<exists>w. arg = JStr w \<and> \<not> new_URL h w) \<longrightarrow>
            (\<exists>e. ingestURL h s arg = (Inl e, s) \<and> invalid_input e))"
  using assms
  by (cases arg) (auto simp: ingestURL_def invalid_input_def)

theorem ingestURL_validates_witness:
  "isWorkerReady ready_dispatcher \<and> worker ready_dispatcher \<and> \<not> new_URL browser [] \<and>
   new_URL browser (js ''https://example.org/'') \<and>
   outbox (snd (ingestURL browser ready_dispatcher (JStr (js ''https://example.org/''))))
     = outbox ready_dispatcher @ [ingest_url_message browser (js ''https://example.org/'')] \<and>
   \<not> new_URL browser (js ''not a url'') \<and>
   ingestURL browser ready_dispatcher (JStr (js ''not a url''))
     = (Inl (Error (js ''Invalid URL format'')), ready_dispatcher) \<and>
   ingestURL browser ready_dispatcher (JNum 42)
     = (Inl (Error (js ''Invalid URL provided'')), ready_dispatcher)"
  using ingestURL_validates [of ready_dispatcher browser "js ''https://example.org/''" "JNum 42"]
    ingestURL_validates [of ready_dispatcher browser "js ''https://example.org/''"
      "JStr (js ''not a url'')"]
  by (simp add: ready_dispatcher_def constructor_def initializeWorker_def browser_def
      ingestURL_def js_def)

text \<open>
  C6, as stated, fails: ingestPDF tests readiness before the type of the file, so on a
  dispatcher that is not ready a text file is answered with the not-ready error, which
  is not an invalid-input error.
\<close>

theorem ingestPDF_not_ready_first:
  "fst (ingestPDF browser (constructor browser) (JFile notes_txt)) = Inl not_ready \<and>
   \<not> invalid_input not_ready \<and> file_type notes_txt \<noteq> js ''application/pdf''"
  by (simp add: ingestPDF_def constructor_def initializeWorker_def browser_def not_ready_def
      invalid_input_def notes_txt_def js_def)

text \<open>
  C6, amended: for every file whose declared type is not \<open>application/pdf\<close>, ingestPDF
  rejects before its first suspension point, with the invalid-input error
  \<open>File must be a PDF\<close> when the dispatcher is ready and with the not-ready error when it
  is not; either way the instance is as it was: the bytes are not read and nothing is
  posted.
\<close>

theorem ingestPDF_checks_type:
  assumes "file_type f \<noteq> js ''application/pdf''"
  shows "ingestPDF h s (JFile f)
           = (Inl (if isWorkerReady s then Error (js ''File must be a PDF'') else not_ready), s) \<and>
         invalid_input (Error (js ''File must be a PDF'')) \<and>
         reads (snd (ingestPDF h s (JFile f))) = reads s \<and>
         outbox (snd (ingestPDF h s (JFile f))) = outbox s"
  using assms by (simp add: ingestPDF_def invalid_input_def)

theorem ingestPDF_checks_type_witness:
  "file_type notes_txt \<noteq> js ''application/pdf'' \<and>
   ingestPDF browser ready_dispatcher (JFile notes_txt)
     = (Inl (Error (js ''File must be a PDF'')), ready_dispatcher) \<and>
   ingestPDF browser (constructor browser) (JFile notes_txt)
     = (Inl not_ready, constructor browser)"
  using ingestPDF_checks_type [of notes_txt browser ready_dispatcher]
    ingestPDF_checks_type [of notes_txt browser "constructor browser"]
  by (simp add: notes_txt_def js_def ready_dispatcher_def constructor_def initializeWorker_def
      browser_def)

section \<open>The PDF operation\<close>

lemma inj_ucast_byte: "inj (ucast :: 8 word \<Rightarrow> 16 word)"
proof (rule inj_on_inverseI)
  fix x :: "8 word"
  show "(ucast (ucast x :: 16 word) :: 8 word) = x"
    by (simp add: ucast_up_ucast_id is_up)
qed

lemma signature_bytes:
  "startsWith (fromCharCode (take 4 b)) (js ''%PDF'') \<longleftrightarrow> take 4 b = [0x25, 0x50, 0x44, 0x46]"
proof -
  have sig: "js ''%PDF'' = map (ucast :: 8 word \<Rightarrow> 16 word) [0x25, 0x50, 0x44, 0x46]"
    by (simp add: js_def)
  have len: "length (js ''%PDF'') = 4"
    by (simp add: js_def)
  have "take 4 (map (ucast :: 8 word \<Rightarrow> 16 word) (take 4 b)) = map ucast (take 4 b)"
    by (simp add: take_map)
  then have "startsWith (fromCharCode (take 4 b)) (js ''%PDF'')
      \<longleftrightarrow> map (ucast :: 8 word \<Rightarrow> 16 word) (take 4 b) = js ''%PDF''"
    by (simp only: startsWith_def fromCharCode_def len)
  also have "\<dots> \<longleftrightarrow> take 4 b = [0x25, 0x50, 0x44, 0x46]"
    unfolding sig by (rule inj_map_eq_map [OF inj_ucast_byte])
  finally show ?thesis .
qed

text \<open>
  C3, as stated, fails: handlePdfParse tests the declared type before it reads the
  bytes, so a text file whose bytes are \<open>abcd\<close> is refused with the message about the
  type, not with the message about the signature.
\<close>

theorem handlePdfParse_type_before_signature:
  "file_bytes notes_txt = Inr [0x61, 0x62, 0x63, 0x64] \<and>
   take 4 [0x61, 0x62, 0x63, 0x64] \<noteq> [0x25, 0x50, 0x44, 0x46 :: 8 word] \<and>
   handlePdfParse (serving []) (JFile notes_txt)
     = [JObj [(''operation'', JStr (js ''pdf'')),
              (''success'', JBool False),
              (''error'', JStr (js ''Failed to parse PDF: File is not a PDF document'')),
              (''filename'', JStr (js ''notes.txt''))]] \<and>
   js ''Failed to parse PDF: File is not a PDF document''
     \<noteq> js ''Failed to parse PDF: Invalid PDF file format''"
  by (simp add: handlePdfParse_def pdf_failure_def notes_txt_def js_or_def js_def)

text \<open>
  C3, amended: for every file whose bytes can be read and do not begin with \<open>%PDF\<close>,
  handlePdfParse posts exactly one message, a failure of the operation \<open>pdf\<close> without
  data. Its error is the signature message \<open>Invalid PDF file format\<close> when the declared
  type is \<open>application/pdf\<close> and the last-modified time is a valid date, and the type
  message \<open>File is not a PDF document\<close> for every other declared type.
\<close>

theorem handlePdfParse_rejects_signature:
  assumes "file_bytes f = Inr b" and "take 4 b \<noteq> [0x25, 0x50, 0x44, 0x46]"
  shows "handlePdfParse env (JFile f)
           = [pdf_failure (JFile f)
                (if file_type f \<noteq> js ''application/pdf'' then js ''File is not a PDF document''
                 else if valid_time (file_lastModified f) then js ''Invalid PDF file format''
                 else engine_message env (JFile f))] \<and>
         get_prop (pdf_failure (JFile f) msg) ''operation'' = JStr (js ''pdf'') \<and>
         get_prop (pdf_failure (JFile f) msg) ''success'' = JBool False \<and>
         get_prop (pdf_failure (JFile f) msg) ''error''
           = JStr (js ''Failed to parse PDF: '' @ msg) \<and>
         get_prop (pdf_failure (JFile f) msg) ''data'' = JUndefined"
  using assms by (simp add: handlePdfParse_def signature_bytes pdf_failure_def)

theorem handlePdfParse_rejects_signature_witness:
  "file_bytes pdf_named_txt = Inr [0x61, 0x62, 0x63, 0x64] \<and>
   take 4 [0x61, 0x62, 0x63, 0x64] \<noteq> [0x25, 0x50, 0x44, 0x46 :: 8 word] \<and>
   handlePdfParse (serving []) (JFile pdf_named_txt)
     = [JObj [(''operation'', JStr (js ''pdf'')),
              (''success'', JBool False),
              (''error'', JStr (js ''Failed to parse PDF: Invalid PDF file format'')),
              (''filename'', JStr (js ''notes.pdf''))]]"
  using handlePdfParse_rejects_signature [of pdf_named_txt "[0x61, 0x62, 0x63, 0x64]" "serving []"]
  by (simp add: pdf_named_txt_def pdf_failure_def js_or_def valid_time_def js_def)

section \<open>The URL operation\<close>

lemma unat_digit: "n < 10 \<Longrightarrow> unat (0x30 + of_nat n :: jschar) = 48 + n"
  by (simp add: unat_word_ariths unat_of_nat)

lemma spec_value_dec: "spec_value (dec n) = n"
proof (induction n rule: dec.induct)
  case (1 n)
  show ?case
  proof (cases "n < 10")
    case True
    then show ?thesis
      by (subst dec.simps) (simp add: spec_value_def unat_digit)
  next
    case False
    have "n mod 10 < 10" by simp
    then have d: "unat (0x30 + of_nat (n mod 10) :: jschar) = 48 + n mod 10"
      by (rule unat_digit)
    from False 1 have "spec_value (dec (n div 10)) = n div 10"
      by simp
    with False d show ?thesis
      by (subst dec.simps) (simp add: spec_value_def)
  qed
qed

lemma dec_digits: "c \<in> set (dec n) \<Longrightarrow> c \<in> set (js ''0123456789'')"
proof (induction n arbitrary: c rule: dec.induct)
  case (1 n)
  have digit: "(0x30 + of_nat d :: jschar) \<in> set (js ''0123456789'')" if "d < 10" for d :: nat
  proof -
    from that have "d \<in> {0, 1, 2, 3, 4, 5, 6, 7, 8, 9}" by auto
    then show ?thesis by (auto simp: js_def)
  qed
  show ?case
  proof (cases "n < 10")
    case True
    with "1.prems" have "c = 0x30 + of_nat n"
      by (simp add: dec.simps [of n])
    with True digit show ?thesis by simp
  next
    case False
    with "1.prems" have "c \<in> set (dec (n div 10)) \<or> c = 0x30 + of_nat (n mod 10)"
      by (auto simp: dec.simps [of n])
    then show ?thesis
    proof
      assume "c \<in> set (dec (n div 10))"
      with False show ?thesis by (simp add: "1.IH")
    next
      assume "c = 0x30 + of_nat (n mod 10)"
      then show ?thesis using digit [of "n mod 10"] by simp
    qed
  qed
qed

lemma handleHtmlFetch_ok:
  assumes "fetch env url = Inr r" and "ok r" and "text_body r = Inr html"
      and "domParser env = Some parseFromString"
  shows "handleHtmlFetch env url = [html_success env url (parseFromString html)]"
  using assms by (simp add: handleHtmlFetch_def)

lemma html_success_fields:
  "get_prop (html_success env url d) ''operation'' = JStr (js ''html'')"
  "get_prop (html_success env url d) ''success'' = JBool True"
  "get_prop (get_prop (html_success env url d) ''data'') ''bodyText''
     = JStr (take 10000 (extract_bodyText env d))"
  "get_prop (get_prop (html_success env url d) ''data'') ''contentLength''
     = JNum (int (length (extract_bodyText env d)))"
  "get_prop (get_prop (html_success env url d) ''data'') ''links''
     = JArr (take 50 (map link_record (extract_links env d)))"
  "get_prop (get_prop (html_success env url d) ''data'') ''headings''
     = JArr (take 20 (map heading_record (extract_headings env d)))"
  by (simp_all add: html_success_def Let_def)

text \<open>
  C9: when the fetch resolves to a response whose status is not from 200 to 299,
  handleHtmlFetch posts exactly one message, the failure of the operation \<open>html\<close>. Its
  error is \<open>Failed to fetch/parse HTML: HTTP\<close>, the status in decimal (digits that read
  back as the status), a colon and the reason phrase; it has no data field, so no
  document extract is produced.
\<close>

theorem failed_status_fails:
  assumes "fetch env url = Inr r" and "status r < 200 \<or> 299 < status r"
  shows "handleHtmlFetch env url
           = [html_failure url (js ''HTTP '' @ dec (status r) @ js '': '' @ statusText r)] \<and>
         spec_value (dec (status r)) = status r \<and>
         set (dec (status r)) \<subseteq> set (js ''0123456789'') \<and>
         get_prop (html_failure url msg) ''operation'' = JStr (js ''html'') \<and>
         get_prop (html_failure url msg) ''success'' = JBool False \<and>
         get_prop (html_failure url msg) ''error''
           = JStr (js ''Failed to fetch/parse HTML: '' @ msg) \<and>
         get_prop (html_failure url msg) ''data'' = JUndefined"
proof -
  have "handleHtmlFetch env url
      = [html_failure url (js ''HTTP '' @ dec (status r) @ js '': '' @ statusText r)]"
    using assms by (auto simp: handleHtmlFetch_def ok_def)
  moreover have "set (dec (status r)) \<subseteq> set (js ''0123456789'')"
    by (blast dest: dec_digits)
  ultimately show ?thesis
    by (simp add: spec_value_dec html_failure_def)
qed

theorem failed_status_fails_witness:
  "fetch (answering 404 (js ''Not Found'')) (JStr (js ''https://example.org/missing''))
     = Inr \<lparr>status = 404, statusText = js ''Not Found'', text_body = Inr []\<rparr> \<and>
   handleHtmlFetch (answering 404 (js ''Not Found'')) (JStr (js ''https://example.org/missing''))
     = [JObj [(''operation'', JStr (js ''html'')),
              (''success'', JBool False),
              (''error'', JStr (js ''Failed to fetch/parse HTML: HTTP 404: Not Found'')),
              (''url'', JStr (js ''https://example.org/missing''))]]"
  using failed_status_fails [of "answering 404 (js ''Not Found'')"
      "JStr (js ''https://example.org/missing'')"
      "\<lparr>status = 404, statusText = js ''Not Found'', text_body = Inr []\<rparr>"]
  by (simp add: answering_def tree_platform_def html_failure_def js_def dec.simps)

section \<open>Whitespace\<close>

lemma filter_dropWhile_not: "filter (\<lambda>c. \<not> P c) (dropWhile P xs) = filter (\<lambda>c. \<not> P c) xs"
  by (induction xs) simp_all

lemma collapse_ws_keeps_text:
  "filter (\<lambda>c. \<not> is_ws c) (collapse_ws s) = filter (\<lambda>c. \<not> is_ws c) s"
proof (induction s rule: collapse_ws.induct)
  case 1
  show ?case by simp
next
  case (2 c cs)
  have sp: "is_ws 0x20" by (simp add: is_ws_def)
  show ?case
  proof (cases "is_ws c")
    case True
    with 2 sp show ?thesis by (simp add: filter_dropWhile_not)
  next
    case False
    with 2 show ?thesis by simp
  qed
qed

lemma trim_keeps_text: "filter (\<lambda>c. \<not> is_ws c) (trim s) = filter (\<lambda>c. \<not> is_ws c) s"
proof -
  have "filter (\<lambda>c. \<not> is_ws c) (trim s)
      = rev (filter (\<lambda>c. \<not> is_ws c) (dropWhile is_ws (rev (dropWhile is_ws s))))"
    by (simp add: trim_def rev_filter)
  also have "\<dots> = filter (\<lambda>c. \<not> is_ws c) (dropWhile is_ws s)"
    by (simp add: filter_dropWhile_not rev_filter)
  finally show ?thesis by (simp add: filter_dropWhile_not)
qed

lemma clean_keeps_text: "filter (\<lambda>c. \<not> is_ws c) (clean s) = filter (\<lambda>c. \<not> is_ws c) s"
  by (simp add: clean_def trim_keeps_text collapse_ws_keeps_text)

lemma trim_edges:
  assumes "trim s \<noteq> []"
  shows "\<not> is_ws (hd (trim s))" and "\<not> is_ws (last (trim s))"
proof -
  define u where "u = dropWhile is_ws s"
  define v where "v = dropWhile is_ws (rev u)"
  have t: "trim s = rev v"
    by (simp add: trim_def u_def v_def)
  from assms have v: "v \<noteq> []"
    by (simp add: t)
  have u: "u \<noteq> []"
  proof
    assume "u = []"
    then have "v = []" by (simp add: v_def)
    with v show False by simp
  qed
  have hv: "\<not> is_ws (hd v)"
    using v unfolding v_def by (rule hd_dropWhile)
  have hu: "\<not> is_ws (hd u)"
    using u unfolding u_def by (rule hd_dropWhile)
  have "last v = last (rev u)"
    using v unfolding v_def
    by (metis last_appendR takeWhile_dropWhile_id)
  then have "last v = hd u"
    using u by (simp add: last_rev)
  with hu v show "\<not> is_ws (hd (trim s))"
    by (simp add: t hd_rev)
  from hv v show "\<not> is_ws (last (trim s))"
    by (simp add: t last_rev)
qed


lemma single_spaced_Cons:
  "single_spaced (c # t) \<longleftrightarrow>
     (is_ws c \<longrightarrow> c = 0x20 \<and> (t \<noteq> [] \<longrightarrow> \<not> is_ws (hd t))) \<and> single_spaced t"
  by (cases t) auto

lemma single_spaced_append:
  "single_spaced (a @ b) \<Longrightarrow> single_spaced a \<and> single_spaced b"
proof (induction a)
  case Nil
  then show ?case by simp
next
  case (Cons c a)
  then show ?case
    by (cases a) (auto simp: single_spaced_Cons simp del: single_spaced.simps)
qed

lemma hd_collapse_ws: "s \<noteq> [] \<Longrightarrow> is_ws (hd (collapse_ws s)) \<longleftrightarrow> is_ws (hd s)"
  by (cases s) (simp_all add: is_ws_def)

lemma collapse_ws_Nil: "collapse_ws s = [] \<longleftrightarrow> s = []"
  by (cases s) simp_all

lemma single_spaced_collapse_ws: "single_spaced (collapse_ws s)"
proof (induction s rule: collapse_ws.induct)
  case 1
  show ?case by simp
next
  case (2 c cs)
  show ?case
  proof (cases "is_ws c")
    case True
    have "\<not> is_ws (hd (collapse_ws (dropWhile is_ws cs)))" if "dropWhile is_ws cs \<noteq> []"
      using that by (simp add: hd_collapse_ws hd_dropWhile)
    with True 2 show ?thesis
      by (simp add: single_spaced_Cons collapse_ws_Nil del: single_spaced.simps)
  next
    case False
    with 2 show ?thesis
      by (simp add: single_spaced_Cons del: single_spaced.simps)
  qed
qed

lemma trim_infix: "\<exists>a b. s = a @ trim s @ b"
proof -
  define u where "u = dropWhile is_ws s"
  have "rev (dropWhile is_ws (rev u)) @ rev (takeWhile is_ws (rev u))
      = rev (takeWhile is_ws (rev u) @ dropWhile is_ws (rev u))"
    by (simp only: rev_append)
  also have "\<dots> = rev (rev u)"
    by (simp only: takeWhile_dropWhile_id)
  also have "\<dots> = u"
    by simp
  finally have "u = trim s @ rev (takeWhile is_ws (rev u))"
    by (simp add: trim_def u_def)
  moreover have "s = takeWhile is_ws s @ u"
    by (simp add: u_def)
  ultimately show ?thesis by metis
qed

lemma single_spaced_clean: "single_spaced (clean s)"
proof -
  obtain a b where "collapse_ws s = a @ clean s @ b"
    using trim_infix [of "collapse_ws s"] by (auto simp: clean_def)
  then have "single_spaced (a @ clean s @ b)"
    using single_spaced_collapse_ws [of s] by simp
  then show ?thesis
    by (blast dest: single_spaced_append)
qed

lemma trim_rtrim: "trim s = rtrim (dropWhile is_ws s)"
  by (simp add: trim_def rtrim_def)

lemma rtrim_Nil_iff: "rtrim t = [] \<longleftrightarrow> (\<forall>c \<in> set t. is_ws c)"
  by (simp add: rtrim_def dropWhile_eq_Nil_conv)

lemma rtrim_append: "rtrim (a @ b) = (if rtrim b = [] then rtrim a else a @ rtrim b)"
  by (auto simp: rtrim_def dropWhile_append dropWhile_eq_Nil_conv)

lemma rtrim_no_ws: "\<forall>c \<in> set w. \<not> is_ws c \<Longrightarrow> rtrim w = w"
proof -
  assume a: "\<forall>c \<in> set w. \<not> is_ws c"
  have "dropWhile is_ws (rev w) = rev w"
  proof (cases "rev w")
    case Nil
    then show ?thesis by simp
  next
    case (Cons x xs)
    with a have "\<not> is_ws x"
      by (metis list.set_intros(1) set_rev)
    with Cons show ?thesis by simp
  qed
  then show ?thesis by (simp add: rtrim_def)
qed

lemma collapse_ws_all_ws:
  "\<forall>c \<in> set s. is_ws c \<Longrightarrow> collapse_ws s = (if s = [] then [] else [0x20])"
  by (cases s) (simp_all add: dropWhile_eq_Nil_conv [THEN iffD2])

lemma collapse_ws_word:
  "\<forall>c \<in> set w. \<not> is_ws c \<Longrightarrow> collapse_ws (w @ t) = w @ collapse_ws t"
  by (induction w) simp_all

lemma collapse_ws_lead:
  "\<exists>pre. (\<forall>c \<in> set pre. is_ws c) \<and> collapse_ws s = pre @ collapse_ws (dropWhile is_ws s)"
proof (cases s)
  case Nil
  then show ?thesis by simp
next
  case (Cons c cs)
  show ?thesis
  proof (cases "is_ws c")
    case True
    have "is_ws 0x20" by (simp add: is_ws_def)
    with True Cons have "(\<forall>c \<in> set [0x20]. is_ws c) \<and>
        collapse_ws s = [0x20] @ collapse_ws (dropWhile is_ws s)"
      by simp
    then show ?thesis by blast
  next
    case False
    with Cons have "(\<forall>c \<in> set ([] :: jsstring). is_ws c) \<and>
        collapse_ws s = [] @ collapse_ws (dropWhile is_ws s)"
      by simp
    then show ?thesis by blast
  qed
qed


lemma spec_words_nonempty: "w \<in> set (spec_words s) \<Longrightarrow> w \<noteq> []"
proof (induction s rule: spec_words.induct)
  case (1 s)
  then show ?case
    by (cases "dropWhile is_ws s") (auto simp: spec_words.simps [of s])
qed

lemma spec_join_Nil: "\<forall>w \<in> set ws. w \<noteq> [] \<Longrightarrow> spec_join ws = [] \<longleftrightarrow> ws = []"
  by (cases ws rule: spec_join.cases) auto

lemma spec_join_Cons:
  "spec_join (w # ws) = (if ws = [] then w else w @ 0x20 # spec_join ws)"
  by (cases ws) simp_all

lemma clean_rtrim_collapse:
  assumes "s = [] \<or> is_ws (hd s)"
  shows "rtrim (collapse_ws s) = (if clean s = [] then [] else 0x20 # clean s)"
proof (cases s)
  case Nil
  then show ?thesis by (simp add: rtrim_def clean_def trim_def)
next
  case (Cons r rs)
  with assms have r: "is_ws r" by simp
  define Z where "Z = collapse_ws (dropWhile is_ws rs)"
  have sp: "is_ws 0x20" by (simp add: is_ws_def)
  have Y: "collapse_ws s = [0x20] @ Z"
    using Cons r by (simp add: Z_def)
  have "dropWhile is_ws Z = Z"
  proof (cases "dropWhile is_ws rs = []")
    case True
    show ?thesis unfolding Z_def True by simp
  next
    case False
    then have "\<not> is_ws (hd Z)"
      by (simp add: Z_def hd_collapse_ws hd_dropWhile)
    moreover from False have "Z \<noteq> []"
      by (simp add: Z_def collapse_ws_Nil)
    ultimately show ?thesis by (cases Z) simp_all
  qed
  then have c: "clean s = rtrim Z"
    using sp by (simp add: clean_def trim_rtrim Y)
  have "rtrim [0x20] = []"
    using sp by (simp add: rtrim_def)
  moreover have "rtrim ([0x20] @ Z) = (if rtrim Z = [] then rtrim [0x20] else [0x20] @ rtrim Z)"
    by (rule rtrim_append)
  ultimately show ?thesis
    by (simp add: Y c)
qed

lemma clean_words: "clean s = spec_join (spec_words s)"
proof (induction s rule: spec_words.induct)
  case (1 s)
  show ?case
  proof (cases "dropWhile is_ws s")
    case Nil
    then have "\<forall>c \<in> set s. is_ws c"
      by (simp add: dropWhile_eq_Nil_conv)
    then have "clean s = []"
      by (simp add: clean_def trim_def collapse_ws_all_ws is_ws_def)
    moreover have "spec_words s = []"
      by (subst spec_words.simps) (simp only: Nil list.case)
    ultimately show ?thesis
      by simp
  next
    case (Cons c cs)
    define w where "w = c # takeWhile (\<lambda>x. \<not> is_ws x) cs"
    define rest where "rest = dropWhile (\<lambda>x. \<not> is_ws x) cs"
    have c: "\<not> is_ws c"
      using hd_dropWhile [of is_ws s] Cons by simp
    have w: "\<forall>x \<in> set w. \<not> is_ws x"
      using c by (auto simp: w_def dest: set_takeWhileD)
    have split: "dropWhile is_ws s = w @ rest"
      by (simp add: Cons w_def rest_def)
    have words: "spec_words s = w # spec_words rest"
      by (subst spec_words.simps) (simp only: Cons list.case w_def rest_def)
    have IH: "clean rest = spec_join (spec_words rest)"
      unfolding rest_def by (rule 1) (rule Cons)
    obtain pre where pre: "\<forall>x \<in> set pre. is_ws x"
      and "collapse_ws s = pre @ collapse_ws (dropWhile is_ws s)"
      using collapse_ws_lead [of s] by blast
    then have col: "collapse_ws s = pre @ w @ collapse_ws rest"
      using w by (simp add: split collapse_ws_word)
    have "dropWhile is_ws (pre @ w @ collapse_ws rest) = w @ collapse_ws rest"
      using pre c by (simp add: dropWhile_append2 w_def)
    then have "clean s = rtrim (w @ collapse_ws rest)"
      by (simp add: clean_def trim_rtrim col)
    also have "\<dots> = (if rtrim (collapse_ws rest) = [] then w else w @ rtrim (collapse_ws rest))"
      using w by (simp add: rtrim_append rtrim_no_ws)
    finally have cl: "clean s
        = (if rtrim (collapse_ws rest) = [] then w else w @ rtrim (collapse_ws rest))" .
    have lead: "rest = [] \<or> is_ws (hd rest)"
    proof (cases "rest = []")
      case True
      then show ?thesis by simp
    next
      case False
      then have "\<not> \<not> is_ws (hd rest)"
        unfolding rest_def by (rule hd_dropWhile)
      then show ?thesis by simp
    qed
    have ne: "spec_join (spec_words rest) = [] \<longleftrightarrow> spec_words rest = []"
      by (rule spec_join_Nil) (blast dest: spec_words_nonempty)
    show ?thesis
      using cl ne
      by (simp add: clean_rtrim_collapse [OF lead] IH words spec_join_Cons)
  qed
qed

lemma collapse_ws_no_ws: "\<forall>c \<in> set s. \<not> is_ws c \<Longrightarrow> collapse_ws s = s"
  by (induction s) simp_all

lemma collapse_ws_replicate:
  "\<not> is_ws c \<Longrightarrow> collapse_ws (replicate n c @ s) = replicate n c @ collapse_ws s"
  by (induction n) simp_all

lemma dropWhile_replicate_keep:
  "\<not> P c \<Longrightarrow> 0 < n \<Longrightarrow> dropWhile P (replicate n c @ s) = replicate n c @ s"
  by (cases n) simp_all

lemma ws_facts: "is_ws 0x20" "is_ws 0x0A" "is_ws 0x09" "\<not> is_ws 0x61"
  by (simp_all add: is_ws_def)

lemma clean_long_text: "clean long_text = replicate 10001 0x61"
proof -
  have "collapse_ws long_text = 0x20 # replicate 10001 0x61 @ [0x20]"
    by (simp add: long_text_def ws_facts dropWhile_replicate_keep collapse_ws_replicate)
  then show ?thesis
    by (simp add: clean_def trim_def ws_facts dropWhile_replicate_keep
        dropWhile_replicate_keep [where s = "[]", simplified])
qed

lemma long_text_nonempty: "long_text \<noteq> []"
  by (simp add: long_text_def)

lemma long_page_probe: "probe (serving long_page) long_page contentSelectors = long_text"
  by (simp add: contentSelectors_def querySelector_def serving_def tree_platform_def
      long_page_def matches_def has_class_def str_or_def long_text_nonempty js_def)

lemma long_page_text: "extract_bodyText (serving long_page) long_page = replicate 10001 0x61"
  by (simp add: extract_bodyText_def long_page_probe clean_long_text)

lemma serving_succeeds: "handleHtmlFetch (serving d) url = [html_success (serving d) url d]"
proof -
  have "fetch (serving d) url = Inr \<lparr>status = 200, statusText = js ''OK'', text_body = Inr []\<rparr>"
    and "domParser (serving d) = Some (\<lambda>html. d)"
    by (simp_all add: serving_def tree_platform_def)
  then show ?thesis
    using handleHtmlFetch_ok [of "serving d" url
        "\<lparr>status = 200, statusText = js ''OK'', text_body = Inr []\<rparr>" "[]" "\<lambda>html. d"]
    by (simp add: ok_def)
qed

section \<open>The body text\<close>

text \<open>
  C7: when the fetch succeeds and the cleaned body text, which is the text of the first
  matching content selector with its whitespace collapsed and trimmed, is longer than
  10000 code units, handleHtmlFetch posts one success message whose \<open>bodyText\<close> is the
  first 10000 code units of the cleaned text and whose \<open>contentLength\<close> is the length of
  the whole cleaned text.
\<close>

theorem bodyText_truncated:
  assumes "fetch env url = Inr r" and "ok r" and "text_body r = Inr html"
      and "domParser env = Some parseFromString" and "d = parseFromString html"
      and "10000 < length (clean (probe env d contentSelectors))"
  shows "handleHtmlFetch env url = [html_success env url d] \<and>
         get_prop (html_success env url d) ''success'' = JBool True \<and>
         get_prop (get_prop (html_success env url d) ''data'') ''bodyText''
           = JStr (take 10000 (clean (probe env d contentSelectors))) \<and>
         length (take 10000 (clean (probe env d contentSelectors))) = 10000 \<and>
         get_prop (get_prop (html_success env url d) ''data'') ''contentLength''
           = JNum (int (length (clean (probe env d contentSelectors))))"
  using assms
  by (simp add: handleHtmlFetch_ok html_success_fields extract_bodyText_def)

theorem bodyText_truncated_witness:
  "fetch (serving long_page) (JStr (js ''https://example.org/''))
     = Inr \<lparr>status = 200, statusText = js ''OK'', text_body = Inr []\<rparr> \<and>
   ok \<lparr>status = 200, statusText = js ''OK'', text_body = Inr []\<rparr> \<and>
   domParser (serving long_page) = Some (\<lambda>html. long_page) \<and>
   clean (probe (serving long_page) long_page contentSelectors) = replicate 10001 0x61 \<and>
   get_prop (get_prop (html_success (serving long_page) (JStr (js ''https://example.org/''))
       long_page) ''data'') ''bodyText'' = JStr (replicate 10000 0x61) \<and>
   get_prop (get_prop (html_success (serving long_page) (JStr (js ''https://example.org/''))
       long_page) ''data'') ''contentLength'' = JNum 10001"
proof -
  have env: "fetch (serving long_page) (JStr (js ''https://example.org/''))
      = Inr \<lparr>status = 200, statusText = js ''OK'', text_body = Inr []\<rparr>"
    "domParser (serving long_page) = Some (\<lambda>html. long_page)"
    by (simp_all add: serving_def tree_platform_def)
  have ok: "ok \<lparr>status = 200, statusText = js ''OK'', text_body = Inr []\<rparr>"
    by (simp add: ok_def)
  have cleaned: "clean (probe (serving long_page) long_page contentSelectors) = replicate 10001 0x61"
    by (simp add: long_page_probe clean_long_text)
  show ?thesis
    using bodyText_truncated [OF env(1) ok _ env(2), of "[]" long_page] env ok cleaned
    by simp
qed

lemma probe_find:
  "probe env d sels =
     (case find (\<lambda>sel. querySelectorAll env d sel \<noteq> []) sels of
        None \<Rightarrow> []
      | Some sel \<Rightarrow>
          str_or (textContent env (hd (querySelectorAll env d sel)))
            (str_or (innerText env (hd (querySelectorAll env d sel))) []))"
  by (induction sels) (auto simp: querySelector_def split: list.splits)

text \<open>
  C10, as stated, fails for the emitted text: the \<open>bodyText\<close> of the message is cut to
  10000 code units, so for the article of 10001 letters it is not the cleaned text.
\<close>

theorem emitted_bodyText_is_cut:
  "handleHtmlFetch (serving long_page) (JStr (js ''https://example.org/''))
     = [html_success (serving long_page) (JStr (js ''https://example.org/'')) long_page] \<and>
   clean (probe (serving long_page) long_page contentSelectors) = replicate 10001 0x61 \<and>
   get_prop (get_prop (html_success (serving long_page) (JStr (js ''https://example.org/''))
       long_page) ''data'') ''bodyText'' = JStr (replicate 10000 0x61) \<and>
   JStr (replicate 10000 0x61) \<noteq> JStr (replicate 10001 0x61)"
proof -
  have "length (replicate 10000 (0x61 :: jschar)) \<noteq> length (replicate 10001 (0x61 :: jschar))"
    by simp
  then have "replicate 10000 (0x61 :: jschar) \<noteq> replicate 10001 0x61"
    by metis
  then show ?thesis
    by (simp add: serving_succeeds html_success_fields long_page_text long_page_probe
        clean_long_text)
qed

text \<open>
  C10, amended: the selectors are probed in the order \<open>main\<close>, \<open>article\<close>, \<open>.content\<close>,
  \<open>#content\<close>, \<open>.post-content\<close>, \<open>.entry-content\<close>, \<open>body\<close>; the raw text is that of the first
  element of the first selector that has a match (its \<open>textContent\<close>, or its \<open>innerText\<close>
  when that is empty), and the empty string when no selector has one; the body text is
  the raw text with every run of whitespace collapsed to one space and then trimmed,
  which is the words of the raw text joined by single spaces: it keeps the other code
  units in their order, its only whitespace is single spaces, and it neither begins
  nor ends with one.
  The message carries its length as \<open>contentLength\<close> and its first 10000 code units as
  \<open>bodyText\<close>, which is the whole body text when that has at most 10000 code units.
\<close>

theorem bodyText_first_match:
  assumes "fetch env url = Inr r" and "ok r" and "text_body r = Inr html"
      and "domParser env = Some parseFromString" and "d = parseFromString html"
  shows "handleHtmlFetch env url = [html_success env url d] \<and>
         contentSelectors
           = [js ''main'', js ''article'', js ''.content'', js ''#content'',
              js ''.post-content'', js ''.entry-content'', js ''body''] \<and>
         probe env d contentSelectors
           = (case find (\<lambda>sel. querySelectorAll env d sel \<noteq> []) contentSelectors of
                None \<Rightarrow> []
              | Some sel \<Rightarrow>
                  str_or (textContent env (hd (querySelectorAll env d sel)))
                    (str_or (innerText env (hd (querySelectorAll env d sel))) [])) \<and>
         extract_bodyText env d = trim (collapse_ws (probe env d contentSelectors)) \<and>
         extract_bodyText env d = spec_join (spec_words (probe env d contentSelectors)) \<and>
         single_spaced (extract_bodyText env d) \<and>
         (extract_bodyText env d \<noteq> [] \<longrightarrow>
            \<not> is_ws (hd (extract_bodyText env d)) \<and> \<not> is_ws (last (extract_bodyText env d))) \<and>
         filter (\<lambda>c. \<not> is_ws c) (extract_bodyText env d)
           = filter (\<lambda>c. \<not> is_ws c) (probe env d contentSelectors) \<and>
         get_prop (get_prop (html_success env url d) ''data'') ''bodyText''
           = JStr (take 10000 (extract_bodyText env d)) \<and>
         get_prop (get_prop (html_success env url d) ''data'') ''contentLength''
           = JNum (int (length (extract_bodyText env d))) \<and>
         (length (extract_bodyText env d) \<le> 10000 \<longrightarrow>
            get_prop (get_prop (html_success env url d) ''data'') ''bodyText''
              = JStr (extract_bodyText env d))"
proof (intro conjI impI)
  show "handleHtmlFetch env url = [html_success env url d]"
    using assms by (simp add: handleHtmlFetch_ok)
  show "contentSelectors
      = [js ''main'', js ''article'', js ''.content'', js ''#content'',
         js ''.post-content'', js ''.entry-content'', js ''body'']"
    by (simp only: contentSelectors_def)
  show "probe env d contentSelectors
      = (case find (\<lambda>sel. querySelectorAll env d sel \<noteq> []) contentSelectors of
           None \<Rightarrow> []
         | Some sel \<Rightarrow>
             str_or (textContent env (hd (querySelectorAll env d sel)))
               (str_or (innerText env (hd (querySelectorAll env d sel))) []))"
    by (rule probe_find)
  show "extract_bodyText env d = trim (collapse_ws (probe env d contentSelectors))"
    by (simp only: extract_bodyText_def clean_def)
  show "extract_bodyText env d = spec_join (spec_words (probe env d contentSelectors))"
    by (simp only: extract_bodyText_def clean_words)
  show "single_spaced (extract_bodyText env d)"
    by (simp only: extract_bodyText_def single_spaced_clean)
  show "filter (\<lambda>c. \<not> is_ws c) (extract_bodyText env d)
      = filter (\<lambda>c. \<not> is_ws c) (probe env d contentSelectors)"
    by (simp only: extract_bodyText_def clean_keeps_text)
  show "get_prop (get_prop (html_success env url d) ''data'') ''bodyText''
      = JStr (take 10000 (extract_bodyText env d))"
    by (simp only: html_success_fields)
  show "get_prop (get_prop (html_success env url d) ''data'') ''contentLength''
      = JNum (int (length (extract_bodyText env d)))"
    by (simp only: html_success_fields)
next
  assume "length (extract_bodyText env d) \<le> 10000"
  then show "get_prop (get_prop (html_success env url d) ''data'') ''bodyText''
      = JStr (extract_bodyText env d)"
    by (simp add: html_success_fields)
next
  assume "extract_bodyText env d \<noteq> []"
  then have "trim (collapse_ws (probe env d contentSelectors)) \<noteq> []"
    by (simp add: extract_bodyText_def clean_def)
  then show "\<not> is_ws (hd (extract_bodyText env d))"
    and "\<not> is_ws (last (extract_bodyText env d))"
    by (simp_all add: extract_bodyText_def clean_def trim_edges)
qed

lemma small_page_probe:
  "probe (serving small_page) small_page contentSelectors
     = js ''  Hello'' @ [0x0A, 0x09] @ js ''world ''"
  by (simp add: contentSelectors_def querySelector_def serving_def tree_platform_def
      small_page_def matches_def has_class_def str_or_def js_def)

lemma small_page_classes:
  "querySelectorAll (serving small_page) small_page (js ''.content'')
     = [Element (js ''div'') [(js ''class'', js ''box content'')] [TextNode (js ''skipped'')]]"
  by (simp add: serving_def tree_platform_def small_page_def matches_def has_class_def js_def)

lemma small_page_text: "extract_bodyText (serving small_page) small_page = js ''Hello world''"
  by (simp add: extract_bodyText_def small_page_probe clean_def)
     (simp add: trim_def is_ws_def js_def)

theorem bodyText_first_match_witness:
  "fetch (serving small_page) (JStr (js ''https://example.org/''))
     = Inr \<lparr>status = 200, statusText = js ''OK'', text_body = Inr []\<rparr> \<and>
   ok \<lparr>status = 200, statusText = js ''OK'', text_body = Inr []\<rparr> \<and>
   domParser (serving small_page) = Some (\<lambda>html. small_page) \<and>
   querySelectorAll (serving small_page) small_page (js ''main'') = [] \<and>
   querySelectorAll (serving small_page) small_page (js ''.content'') \<noteq> [] \<and>
   probe (serving small_page) small_page contentSelectors
     = js ''  Hello'' @ [0x0A, 0x09] @ js ''world '' \<and>
   extract_bodyText (serving small_page) small_page = js ''Hello world'' \<and>
   spec_words (js ''  Hello'' @ [0x0A, 0x09] @ js ''world '') = [js ''Hello'', js ''world''] \<and>
   length (extract_bodyText (serving small_page) small_page) \<le> 10000 \<and>
   get_prop (get_prop (html_success (serving small_page) (JStr (js ''https://example.org/''))
       small_page) ''data'') ''bodyText'' = JStr (js ''Hello world'')"
proof -
  have env: "fetch (serving small_page) (JStr (js ''https://example.org/''))
      = Inr \<lparr>status = 200, statusText = js ''OK'', text_body = Inr []\<rparr>"
    "domParser (serving small_page) = Some (\<lambda>html. small_page)"
    by (simp_all add: serving_def tree_platform_def)
  have ok: "ok \<lparr>status = 200, statusText = js ''OK'', text_body = Inr []\<rparr>"
    by (simp add: ok_def)
  have body: "text_body \<lparr>status = 200, statusText = js ''OK'', text_body = Inr []\<rparr> = Inr []"
    by simp
  have short: "length (extract_bodyText (serving small_page) small_page) \<le> 10000"
    by (simp add: small_page_text js_def)
  note facts = bodyText_first_match [OF env(1) ok body env(2) refl]
  from facts have "length (extract_bodyText (serving small_page) small_page) \<le> 10000 \<longrightarrow>
      get_prop (get_prop (html_success (serving small_page) (JStr (js ''https://example.org/''))
        small_page) ''data'') ''bodyText'' = JStr (extract_bodyText (serving small_page) small_page)"
    by (elim conjE)
  with short have emitted: "get_prop (get_prop (html_success (serving small_page)
      (JStr (js ''https://example.org/'')) small_page) ''data'') ''bodyText''
      = JStr (js ''Hello world'')"
    by (simp add: small_page_text)
  have none: "querySelectorAll (serving small_page) small_page (js ''main'') = []"
    by (simp add: serving_def tree_platform_def small_page_def matches_def js_def)
  have some: "querySelectorAll (serving small_page) small_page (js ''.content'') \<noteq> []"
    by (simp add: small_page_classes)
  have two: "spec_words (js ''  Hello'' @ [0x0A, 0x09] @ js ''world '') = [js ''Hello'', js ''world'']"
    by (simp add: spec_words.simps is_ws_def js_def)
  show ?thesis
    by (intro conjI env ok none some small_page_probe small_page_text two short emitted)
qed

section \<open>Links and headings\<close>

text \<open>
  C8: the link records are made from the elements matching \<open>a[href]\<close>, in document order,
  keeping those whose trimmed text and whose target are both non-empty; the heading
  records from the elements matching \<open>h1\<close> to \<open>h6\<close>, keeping those whose trimmed text is
  non-empty. The message carries the first 50 of the kept links and the first 20 of the
  kept headings: the filter comes before the cut. With 60 kept links and 25 kept
  headings it carries exactly 50 and 20 records.
\<close>

theorem links_and_headings_truncated:
  assumes "fetch env url = Inr r" and "ok r" and "text_body r = Inr html"
      and "domParser env = Some parseFromString" and "d = parseFromString html"
  shows "handleHtmlFetch env url = [html_success env url d] \<and>
         extract_links env d
           = filter (\<lambda>(text, target). text \<noteq> [] \<and> target \<noteq> [])
               (map (\<lambda>link. (trim (textContent env link), href env link))
                  (querySelectorAll env d (js ''a[href]''))) \<and>
         extract_headings env d
           = filter (\<lambda>(level, text). text \<noteq> [])
               (map (\<lambda>heading. (toLowerCase (tagName env heading), trim (textContent env heading)))
                  (querySelectorAll env d (js ''h1, h2, h3, h4, h5, h6''))) \<and>
         get_prop (get_prop (html_success env url d) ''data'') ''links''
           = JArr (map link_record (take 50 (extract_links env d))) \<and>
         get_prop (get_prop (html_success env url d) ''data'') ''headings''
           = JArr (map heading_record (take 20 (extract_headings env d))) \<and>
         length (take 50 (extract_links env d)) = min 50 (length (extract_links env d)) \<and>
         length (take 20 (extract_headings env d)) = min 20 (length (extract_headings env d)) \<and>
         (length (extract_links env d) = 60 \<and> length (extract_headings env d) = 25 \<longrightarrow>
            length (take 50 (extract_links env d)) = 50 \<and>
            length (take 20 (extract_headings env d)) = 20)"
proof (intro conjI impI)
  show "handleHtmlFetch env url = [html_success env url d]"
    using assms by (simp add: handleHtmlFetch_ok)
  show "extract_links env d
      = filter (\<lambda>(text, target). text \<noteq> [] \<and> target \<noteq> [])
          (map (\<lambda>link. (trim (textContent env link), href env link))
             (querySelectorAll env d (js ''a[href]'')))"
    by (simp only: extract_links_def)
  show "extract_headings env d
      = filter (\<lambda>(level, text). text \<noteq> [])
          (map (\<lambda>heading. (toLowerCase (tagName env heading), trim (textContent env heading)))
             (querySelectorAll env d (js ''h1, h2, h3, h4, h5, h6'')))"
    by (simp only: extract_headings_def)
  show "get_prop (get_prop (html_success env url d) ''data'') ''links''
      = JArr (map link_record (take 50 (extract_links env d)))"
    by (simp only: html_success_fields take_map)
  show "get_prop (get_prop (html_success env url d) ''data'') ''headings''
      = JArr (map heading_record (take 20 (extract_headings env d)))"
    by (simp only: html_success_fields take_map)
  show "length (take 50 (extract_links env d)) = min 50 (length (extract_links env d))"
    by (simp only: length_take min.commute)
  show "length (take 20 (extract_headings env d)) = min 20 (length (extract_headings env d))"
    by (simp only: length_take min.commute)
next
  assume "length (extract_links env d) = 60 \<and> length (extract_headings env d) = 25"
  then show "length (take 50 (extract_links env d)) = 50"
    and "length (take 20 (extract_headings env d)) = 20"
    by simp_all
qed

lemma concat_elements_replicate:
  "elements x = [x] \<Longrightarrow> concat (map elements (replicate n x)) = replicate n x"
  by (induction n) simp_all

lemma link_page_elements:
  "concat (map elements link_page)
     = Element (js ''html'') []
        [Element (js ''body'') []
           (blank_anchor # replicate 60 anchor @ blank_heading # replicate 25 heading)]
       # Element (js ''body'') []
           (blank_anchor # replicate 60 anchor @ blank_heading # replicate 25 heading)
       # blank_anchor # replicate 60 anchor @ blank_heading # replicate 25 heading"
proof -
  have "elements anchor = [anchor]" "elements heading = [heading]"
    "elements blank_anchor = [blank_anchor]" "elements blank_heading = [blank_heading]"
    by (simp_all add: anchor_def heading_def blank_anchor_def blank_heading_def)
  then show ?thesis
    by (simp add: link_page_def concat_elements_replicate)
qed

lemma link_page_anchors:
  "querySelectorAll (serving link_page) link_page (js ''a[href]'')
     = blank_anchor # replicate 60 anchor"
  unfolding serving_def tree_platform_def
  apply (simp add: link_page_elements)
  apply (simp add: matches_def anchor_def blank_anchor_def heading_def blank_heading_def js_def)
  done


lemma link_page_headings:
  "querySelectorAll (serving link_page) link_page (js ''h1, h2, h3, h4, h5, h6'')
     = blank_heading # replicate 25 heading"
  unfolding serving_def tree_platform_def
  apply (simp add: link_page_elements)
  apply (simp add: matches_def anchor_def blank_anchor_def heading_def blank_heading_def js_def)
  done

lemma link_page_links:
  "extract_links (serving link_page) link_page
     = replicate 60 (js ''link'', js ''https://example.org/x'')"
proof -
  have "trim (node_text anchor) = js ''link''" "trim (node_text blank_anchor) = []"
    by (simp_all add: anchor_def blank_anchor_def trim_def is_ws_def js_def)
  moreover have "attribute anchor (js ''href'') = Some (js ''https://example.org/x'')"
    by (simp add: anchor_def js_def)
  moreover have "js ''link'' \<noteq> []" "js ''https://example.org/x'' \<noteq> []"
    by (simp_all add: js_def)
  ultimately show ?thesis
    unfolding extract_links_def link_page_anchors
    by (simp add: serving_def tree_platform_def)
qed

lemma link_page_heads:
  "extract_headings (serving link_page) link_page = replicate 25 (js ''h2'', js ''Section'')"
proof -
  have "trim (node_text heading) = js ''Section''" "trim (node_text blank_heading) = []"
    by (simp_all add: heading_def blank_heading_def trim_def is_ws_def js_def)
  moreover have "toLowerCase (toUpperCase (tag_of heading)) = js ''h2''"
    by (simp add: heading_def toLowerCase_def toUpperCase_def js_def)
  moreover have "js ''Section'' \<noteq> []"
    by (simp add: js_def)
  ultimately show ?thesis
    unfolding extract_headings_def link_page_headings
    by (simp add: serving_def tree_platform_def)
qed

theorem links_and_headings_truncated_witness:
  "fetch (serving link_page) (JStr (js ''https://example.org/''))
     = Inr \<lparr>status = 200, statusText = js ''OK'', text_body = Inr []\<rparr> \<and>
   ok \<lparr>status = 200, statusText = js ''OK'', text_body = Inr []\<rparr> \<and>
   domParser (serving link_page) = Some (\<lambda>html. link_page) \<and>
   length (querySelectorAll (serving link_page) link_page (js ''a[href]'')) = 61 \<and>
   length (extract_links (serving link_page) link_page) = 60 \<and>
   length (extract_headings (serving link_page) link_page) = 25 \<and>
   get_prop (get_prop (html_success (serving link_page) (JStr (js ''https://example.org/''))
       link_page) ''data'') ''links''
     = JArr (replicate 50 (link_record (js ''link'', js ''https://example.org/x''))) \<and>
   get_prop (get_prop (html_success (serving link_page) (JStr (js ''https://example.org/''))
       link_page) ''data'') ''headings''
     = JArr (replicate 20 (heading_record (js ''h2'', js ''Section'')))"
proof -
  have env: "fetch (serving link_page) (JStr (js ''https://example.org/''))
      = Inr \<lparr>status = 200, statusText = js ''OK'', text_body = Inr []\<rparr>"
    "domParser (serving link_page) = Some (\<lambda>html. link_page)"
    by (simp_all add: serving_def tree_platform_def)
  have ok: "ok \<lparr>status = 200, statusText = js ''OK'', text_body = Inr []\<rparr>"
    by (simp add: ok_def)
  have body: "text_body \<lparr>status = 200, statusText = js ''OK'', text_body = Inr []\<rparr> = Inr []"
    by simp
  note facts = links_and_headings_truncated [OF env(1) ok body env(2) refl]
  from facts have "get_prop (get_prop (html_success (serving link_page)
      (JStr (js ''https://example.org/'')) link_page) ''data'') ''links''
      = JArr (map link_record (take 50 (extract_links (serving link_page) link_page)))"
    by (elim conjE)
  then have links: "get_prop (get_prop (html_success (serving link_page)
      (JStr (js ''https://example.org/'')) link_page) ''data'') ''links''
      = JArr (replicate 50 (link_record (js ''link'', js ''https://example.org/x'')))"
    by (simp add: link_page_links)
  from facts have "get_prop (get_prop (html_success (serving link_page)
      (JStr (js ''https://example.org/'')) link_page) ''data'') ''headings''
      = JArr (map heading_record (take 20 (extract_headings (serving link_page) link_page)))"
    by (elim conjE)
  then have headings: "get_prop (get_prop (html_success (serving link_page)
      (JStr (js ''https://example.org/'')) link_page) ''data'') ''headings''
      = JArr (replicate 20 (heading_record (js ''h2'', js ''Section'')))"
    by (simp add: link_page_heads)
  have counts: "length (querySelectorAll (serving link_page) link_page (js ''a[href]'')) = 61"
    "length (extract_links (serving link_page) link_page) = 60"
    "length (extract_headings (serving link_page) link_page) = 25"
    by (simp_all add: link_page_links link_page_heads link_page_anchors)
  show ?thesis
    by (intro conjI env ok links headings counts)
qed

end
